theory Spec2Isabelle
  imports Complex_Main "HOL-Library.Word"
begin

section \<open>Strings, directions and configuration\<close>

text \<open>
  A JavaScript string is a sequence of UTF-16 code units. Every kana of the trainer lies in
  the Basic Multilingual Plane, so one kana is one code unit and \<open>s[i]\<close> is the string
  holding the single unit at position \<open>i\<close>, or \<open>undefined\<close> (here \<open>None\<close>) out of range.
  A string is truthy exactly when it is not empty; \<open>undefined\<close> and \<open>null\<close> are falsy.
\<close>

type_synonym jstring = "16 word list"

definition charAt :: "jstring \<Rightarrow> nat \<Rightarrow> jstring option" where
  "charAt s i = (if i < length s then Some [s ! i] else None)"

fun truthy :: "jstring option \<Rightarrow> bool" where
  "truthy None = False"
| "truthy (Some s) = (s \<noteq> [])"

text \<open>types.ts: \<open>FlickDirection\<close>, \<open>InputMode\<close>, \<open>GameMode\<close>, \<open>FlickKey\<close>.\<close>

datatype FlickDirection = Center | Up | Down | Left | Right

datatype InputMode = Hiragana | Alphabet

datatype GameMode = Daily | Practice

datatype DakutenType = Dakuten | Handakuten

record FlickKey =
  center :: jstring
  up :: "jstring option"
  down :: "jstring option"
  left :: "jstring option"
  right :: "jstring option"

text \<open>
  The configuration object (types.ts \<open>Config\<close>, with the two diacritic maps that
  \<open>getDefaultConfig\<close> in main.ts supplies), nested fields flattened with their path as
  name. JavaScript numbers are idealised as reals. A \<open>Record<string, T>\<close> is an
  association list in the order \<open>Object.entries\<close> enumerates it.
\<close>

record Config =
  game_duration :: real
  game_countdownSeconds :: real
  generator_hiraganaWeights :: "(jstring \<times> real) list"
  generator_alphabetWeights :: "(jstring \<times> real) list"
  flickLayout_hiragana :: "FlickKey list"
  flickLayout_alphabet :: "FlickKey list"
  dakutenMap :: "(jstring \<times> jstring) list"
  handakutenMap :: "(jstring \<times> jstring) list"
  ui_visibleCharsBefore :: int
  ui_visibleCharsAfter :: int
  ui_flickThreshold :: real

section \<open>The flick keyboard (engine/flickKeyboard.ts)\<close>

record FlickKeyboard =
  config_kb :: Config
  inputMode_kb :: InputMode
  startX :: real
  startY :: real
  activeKey :: "FlickKey option"
  activeKeyIndex :: int
  charToKey :: "jstring \<rightharpoonup> FlickKey"
  charToKeyIndex :: "jstring \<rightharpoonup> nat"
  isDragging :: bool
  onInput :: bool

text \<open>
  \<open>onInput\<close> records whether a callback is installed; a call of the callback is an output of
  the release handlers below.
\<close>

definition getLayout :: "FlickKeyboard \<Rightarrow> FlickKey list" where
  "getLayout kb =
     (if inputMode_kb kb = Hiragana then flickLayout_hiragana (config_kb kb)
      else flickLayout_alphabet (config_kb kb))"

text \<open>The pair of \<open>Map.set\<close> calls that \<open>buildCharToKeyMap\<close> makes for one slot.\<close>

definition setChar :: "jstring \<Rightarrow> FlickKey \<Rightarrow> nat \<Rightarrow> FlickKeyboard \<Rightarrow> FlickKeyboard" where
  "setChar ch key i kb =
     kb\<lparr>charToKey := (charToKey kb)(ch \<mapsto> key),
        charToKeyIndex := (charToKeyIndex kb)(ch \<mapsto> i)\<rparr>"

definition setSlot :: "jstring option \<Rightarrow> FlickKey \<Rightarrow> nat \<Rightarrow> FlickKeyboard \<Rightarrow> FlickKeyboard" where
  "setSlot slot key i kb = (case slot of Some ch \<Rightarrow> if ch \<noteq> [] then setChar ch key i kb else kb | None \<Rightarrow> kb)"

text \<open>One iteration of the loop over the layout.\<close>

definition registerKey :: "FlickKey \<Rightarrow> nat \<Rightarrow> FlickKeyboard \<Rightarrow> FlickKeyboard" where
  "registerKey key i kb =
     setSlot (right key) key i
       (setSlot (left key) key i
         (setSlot (down key) key i
           (setSlot (up key) key i
             (setChar (center key) key i kb))))"

fun registerKeys :: "FlickKey list \<Rightarrow> nat \<Rightarrow> FlickKeyboard \<Rightarrow> FlickKeyboard" where
  "registerKeys [] i kb = kb"
| "registerKeys (key # keys) i kb = registerKeys keys (Suc i) (registerKey key i kb)"

text \<open>One iteration of either loop of \<open>addDakutenMappings\<close>.\<close>

definition addMapping :: "jstring \<times> jstring \<Rightarrow> FlickKeyboard \<Rightarrow> FlickKeyboard" where
  "addMapping entry kb =
     (case entry of (base, marked) \<Rightarrow>
        if charToKey kb marked = None
        then (case (charToKey kb base, charToKeyIndex kb base) of
                (Some key, Some keyIndex) \<Rightarrow> setChar marked key keyIndex kb
              | _ \<Rightarrow> kb)
        else kb)"

definition addDakutenMappings :: "FlickKeyboard \<Rightarrow> FlickKeyboard" where
  "addDakutenMappings kb =
     foldl (\<lambda>k e. addMapping e k)
       (foldl (\<lambda>k e. addMapping e k) kb (dakutenMap (config_kb kb)))
       (handakutenMap (config_kb kb))"

definition buildCharToKeyMap :: "FlickKeyboard \<Rightarrow> FlickKeyboard" where
  "buildCharToKeyMap kb =
     (let kb' = registerKeys (getLayout kb) 0 kb
      in if inputMode_kb kb = Hiragana then addDakutenMappings kb' else kb')"

text \<open>The constructor.\<close>

definition new_FlickKeyboard :: "Config \<Rightarrow> InputMode \<Rightarrow> FlickKeyboard" where
  "new_FlickKeyboard cfg mode =
     buildCharToKeyMap
       \<lparr>config_kb = cfg, inputMode_kb = mode, startX = 0, startY = 0, activeKey = None,
        activeKeyIndex = -1, charToKey = Map.empty, charToKeyIndex = Map.empty,
        isDragging = False, onInput = False\<rparr>"

definition setOnInput :: "FlickKeyboard \<Rightarrow> FlickKeyboard" where
  "setOnInput kb = kb\<lparr>onInput := True\<rparr>"

definition getKeyIndexForChar :: "FlickKeyboard \<Rightarrow> jstring \<Rightarrow> int" where
  "getKeyIndexForChar kb ch = (case charToKeyIndex kb ch of Some i \<Rightarrow> int i | None \<Rightarrow> -1)"

text \<open>A key object is always truthy, so \<open>charToKey.get(char) || null\<close> is the map's answer.\<close>

definition getKeyForChar :: "FlickKeyboard \<Rightarrow> jstring \<Rightarrow> FlickKey option" where
  "getKeyForChar kb ch = charToKey kb ch"

definition getDirectionForChar :: "FlickKeyboard \<Rightarrow> jstring \<Rightarrow> FlickDirection option" where
  "getDirectionForChar kb ch =
     (case charToKey kb ch of
        None \<Rightarrow> None
      | Some key \<Rightarrow>
          if center key = ch then Some Center
          else if up key = Some ch then Some Up
          else if down key = Some ch then Some Down
          else if left key = Some ch then Some Left
          else if right key = Some ch then Some Right
          else None)"

text \<open>\<open>slot || null\<close>: an absent or empty slot gives \<open>null\<close>.\<close>

definition orNull :: "jstring option \<Rightarrow> jstring option" where
  "orNull slot = (if truthy slot then slot else None)"

text \<open>The \<open>switch\<close> of \<open>getCharacterForDirection\<close>, on a given key.\<close>

fun keyCharacter :: "FlickKey \<Rightarrow> FlickDirection \<Rightarrow> jstring option" where
  "keyCharacter key Center = Some (center key)"
| "keyCharacter key Up = orNull (up key)"
| "keyCharacter key Down = orNull (down key)"
| "keyCharacter key Left = orNull (left key)"
| "keyCharacter key Right = orNull (right key)"

definition getCharacterForDirection :: "FlickKeyboard \<Rightarrow> FlickDirection \<Rightarrow> jstring option" where
  "getCharacterForDirection kb direction =
     (case activeKey kb of None \<Rightarrow> None | Some key \<Rightarrow> keyCharacter key direction)"

text \<open>
  \<open>needsDakuten\<close>: the character is a value of a diacritic map whose key is not itself a
  value of that map; the voiced map is consulted first.
\<close>

definition needsDakuten :: "FlickKeyboard \<Rightarrow> jstring \<Rightarrow> DakutenType option" where
  "needsDakuten kb ch =
     (let dakutenValues = map snd (dakutenMap (config_kb kb));
          handakutenValues = map snd (handakutenMap (config_kb kb))
      in if ch \<in> set dakutenValues \<and>
            list_ex (\<lambda>(base, marked). marked = ch \<and> base \<notin> set dakutenValues)
              (dakutenMap (config_kb kb))
         then Some Dakuten
         else if ch \<in> set handakutenValues \<and>
            list_ex (\<lambda>(base, marked). marked = ch \<and> base \<notin> set handakutenValues)
              (handakutenMap (config_kb kb))
         then Some Handakuten
         else None)"

text \<open>One reverse-lookup loop of \<open>getBaseChar\<close>: the first entry that qualifies.\<close>

definition reverseLookup :: "(jstring \<times> jstring) list \<Rightarrow> jstring \<Rightarrow> jstring option" where
  "reverseLookup entries ch =
     map_option fst
       (find (\<lambda>(base, marked). marked = ch \<and> base \<notin> set (map snd entries)) entries)"

definition getBaseChar :: "FlickKeyboard \<Rightarrow> jstring \<Rightarrow> jstring option" where
  "getBaseChar kb ch =
     (case reverseLookup (dakutenMap (config_kb kb)) ch of
        Some base \<Rightarrow> Some base
      | None \<Rightarrow> reverseLookup (handakutenMap (config_kb kb)) ch)"

subsection \<open>Gestures\<close>

text \<open>
  \<open>Math.atan2\<close>, the two-argument arctangent with values in \<open>(-\<pi>, \<pi>]\<close>, and
  \<open>Math.sqrt\<close> are taken over the reals: rounding, signed zeros, infinities and NaN of
  IEEE doubles are outside this model.
\<close>

definition atan2 :: "real \<Rightarrow> real \<Rightarrow> real" where
  "atan2 y x =
     (if 0 < x then arctan (y / x)
      else if x < 0 then (if 0 \<le> y then arctan (y / x) + pi else arctan (y / x) - pi)
      else if 0 < y then pi / 2
      else if y < 0 then - (pi / 2)
      else 0)"

definition calculateDirection :: "FlickKeyboard \<Rightarrow> real \<Rightarrow> real \<Rightarrow> FlickDirection" where
  "calculateDirection kb endX endY =
     (let dx = endX - startX kb;
          dy = endY - startY kb;
          distance = sqrt (dx * dx + dy * dy)
      in if distance < ui_flickThreshold (config_kb kb) then Center
         else let angle = atan2 dy dx * (180 / pi)
              in if angle \<ge> -45 \<and> angle < 45 then Right
                 else if angle \<ge> 45 \<and> angle < 135 then Down
                 else if angle \<ge> -135 \<and> angle < -45 then Up
                 else Left)"

record FlickResult =
  direction :: FlickDirection
  character :: "jstring option"

text \<open>
  A press: the pointer position and the key index read from the key element;
  \<open>layout[keyIndex] || null\<close> is \<open>null\<close> when the index is not a position of the layout.
\<close>

definition pressKey :: "real \<Rightarrow> real \<Rightarrow> int \<Rightarrow> FlickKeyboard \<Rightarrow> FlickKeyboard" where
  "pressKey x y keyIndex kb =
     kb\<lparr>startX := x, startY := y,
        activeKey := (if 0 \<le> keyIndex \<and> keyIndex < int (length (getLayout kb))
                      then Some (getLayout kb ! nat keyIndex) else None),
        activeKeyIndex := keyIndex\<rparr>"

definition handleTouchStart :: "FlickKeyboard \<Rightarrow> real \<Rightarrow> real \<Rightarrow> int \<Rightarrow> FlickKeyboard" where
  "handleTouchStart kb clientX clientY keyIndex = pressKey clientX clientY keyIndex kb"

definition handleMouseDown :: "FlickKeyboard \<Rightarrow> real \<Rightarrow> real \<Rightarrow> int \<Rightarrow> FlickKeyboard" where
  "handleMouseDown kb clientX clientY keyIndex =
     pressKey clientX clientY keyIndex (kb\<lparr>isDragging := True\<rparr>)"

text \<open>
  A release returns the handler's result, the call of the input callback that it makes (if
  any) and the keyboard afterwards. \<open>character && this.onInput\<close> lets only a non-empty
  character through, and only to an installed callback.
\<close>

type_synonym release = "FlickResult option \<times> (jstring \<times> FlickDirection) option \<times> FlickKeyboard"

definition invokeOnInput ::
  "FlickKeyboard \<Rightarrow> jstring option \<Rightarrow> FlickDirection \<Rightarrow> (jstring \<times> FlickDirection) option" where
  "invokeOnInput kb ch dir =
     (case ch of
        Some c \<Rightarrow> if c \<noteq> [] \<and> onInput kb then Some (c, dir) else None
      | None \<Rightarrow> None)"

definition handleTouchEnd :: "FlickKeyboard \<Rightarrow> real \<Rightarrow> real \<Rightarrow> release" where
  "handleTouchEnd kb clientX clientY =
     (if activeKey kb = None then (None, None, kb)
      else let dir = calculateDirection kb clientX clientY;
               ch = getCharacterForDirection kb dir
           in (Some \<lparr>direction = dir, character = ch\<rparr>,
               invokeOnInput kb ch dir,
               kb\<lparr>activeKey := None, activeKeyIndex := -1\<rparr>))"

definition handleMouseUp :: "FlickKeyboard \<Rightarrow> real \<Rightarrow> real \<Rightarrow> release" where
  "handleMouseUp kb clientX clientY =
     (if \<not> isDragging kb \<or> activeKey kb = None then (None, None, kb)
      else let kb1 = kb\<lparr>isDragging := False\<rparr>;
               dir = calculateDirection kb1 clientX clientY;
               ch = getCharacterForDirection kb1 dir
           in (Some \<lparr>direction = dir, character = ch\<rparr>,
               invokeOnInput kb1 ch dir,
               kb1\<lparr>activeKey := None, activeKeyIndex := -1\<rparr>))"

subsection \<open>The default configuration (main.ts, \<open>getDefaultConfig\<close>)\<close>

text \<open>
  Kana are written as their code units: U+3042 a, U+304B ka, U+304C ga, U+3055 sa,
  U+306F ha, U+3070 ba, U+3071 pa, U+309B the voicing mark, U+309C the semi-voicing mark.
\<close>

definition defaultHiraganaWeights :: "(jstring \<times> real) list" where
  "defaultHiraganaWeights =
    [([0x3042], 5), ([0x3044], 7), ([0x3046], 6), ([0x3048], 4), ([0x304A], 5),
     ([0x304B], 4.5), ([0x304D], 4.5), ([0x304F], 4.5), ([0x3051], 3), ([0x3053], 4),
     ([0x3055], 3.5), ([0x3057], 5), ([0x3059], 4.5), ([0x305B], 2.5), ([0x305D], 2.5),
     ([0x305F], 4.5), ([0x3061], 3), ([0x3064], 4), ([0x3066], 5), ([0x3068], 5),
     ([0x306A], 4), ([0x306B], 4.5), ([0x306C], 1), ([0x306D], 2), ([0x306E], 5.5),
     ([0x306F], 4), ([0x3072], 2.5), ([0x3075], 2.5), ([0x3078], 1.5), ([0x307B], 2.5),
     ([0x307E], 3.5), ([0x307F], 2.5), ([0x3080], 2), ([0x3081], 2), ([0x3082], 3.5),
     ([0x3084], 3), ([0x3086], 2), ([0x3088], 3.5), ([0x3089], 3), ([0x308A], 3.5),
     ([0x308B], 4), ([0x308C], 3), ([0x308D], 2.5), ([0x308F], 3), ([0x3092], 2.5),
     ([0x3093], 5)]"

definition defaultAlphabetWeights :: "(jstring \<times> real) list" where
  "defaultAlphabetWeights =
    [([0x0061], 8.2), ([0x0062], 1.5), ([0x0063], 2.8), ([0x0064], 4.3), ([0x0065], 12.7), ([0x0066], 2.2),
     ([0x0067], 2), ([0x0068], 6.1), ([0x0069], 7), ([0x006A], 0.15), ([0x006B], 0.77), ([0x006C], 4),
     ([0x006D], 2.4), ([0x006E], 6.7), ([0x006F], 7.5), ([0x0070], 1.9), ([0x0071], 0.095), ([0x0072], 6),
     ([0x0073], 6.3), ([0x0074], 9.1), ([0x0075], 2.8), ([0x0076], 0.98), ([0x0077], 2.4), ([0x0078], 0.15),
     ([0x0079], 2), ([0x007A], 0.074)]"

definition defaultHiraganaLayout :: "FlickKey list" where
  "defaultHiraganaLayout =
    [\<lparr>center = [0x3042], up = Some [0x3046], down = Some [0x304A], left = Some [0x3044], right = Some [0x3048]\<rparr>,
     \<lparr>center = [0x304B], up = Some [0x304F], down = Some [0x3053], left = Some [0x304D], right = Some [0x3051]\<rparr>,
     \<lparr>center = [0x3055], up = Some [0x3059], down = Some [0x305D], left = Some [0x3057], right = Some [0x305B]\<rparr>,
     \<lparr>center = [0x305F], up = Some [0x3064], down = Some [0x3068], left = Some [0x3061], right = Some [0x3066]\<rparr>,
     \<lparr>center = [0x306A], up = Some [0x306C], down = Some [0x306E], left = Some [0x306B], right = Some [0x306D]\<rparr>,
     \<lparr>center = [0x306F], up = Some [0x3075], down = Some [0x307B], left = Some [0x3072], right = Some [0x3078]\<rparr>,
     \<lparr>center = [0x307E], up = Some [0x3080], down = Some [0x3082], left = Some [0x307F], right = Some [0x3081]\<rparr>,
     \<lparr>center = [0x3084], up = Some [0x3086], down = Some [0x3088], left = Some [0xFF08], right = Some [0xFF09]\<rparr>,
     \<lparr>center = [0x3089], up = Some [0x308B], down = Some [0x308D], left = Some [0x308A], right = Some [0x308C]\<rparr>,
     \<lparr>center = [0x309B], up = Some [0x5C0F], down = None, left = Some [0x309C], right = None\<rparr>,
     \<lparr>center = [0x308F], up = Some [0x3093], down = None, left = Some [0x3092], right = Some [0x30FC]\<rparr>,
     \<lparr>center = [0x3001], up = Some [0xFF1F], down = Some [0x2026], left = Some [0x3002], right = Some [0xFF01]\<rparr>]"

definition defaultAlphabetLayout :: "FlickKey list" where
  "defaultAlphabetLayout =
    [\<lparr>center = [0x0040], up = Some [0x002F], down = Some [0x005F], left = Some [0x0023], right = Some [0x0026]\<rparr>,
     \<lparr>center = [0x0061], up = Some [0x0063], down = Some [0x0042], left = Some [0x0062], right = Some [0x0041]\<rparr>,
     \<lparr>center = [0x0064], up = Some [0x0066], down = Some [0x0045], left = Some [0x0065], right = Some [0x0044]\<rparr>,
     \<lparr>center = [0x0067], up = Some [0x0069], down = Some [0x0048], left = Some [0x0068], right = Some [0x0047]\<rparr>,
     \<lparr>center = [0x006A], up = Some [0x006C], down = Some [0x004B], left = Some [0x006B], right = Some [0x004A]\<rparr>,
     \<lparr>center = [0x006D], up = Some [0x006F], down = Some [0x004E], left = Some [0x006E], right = Some [0x004D]\<rparr>,
     \<lparr>center = [0x0070], up = Some [0x0072], down = Some [0x0050], left = Some [0x0071], right = Some [0x0073]\<rparr>,
     \<lparr>center = [0x0074], up = Some [0x0076], down = Some [0x0055], left = Some [0x0075], right = Some [0x0054]\<rparr>,
     \<lparr>center = [0x0077], up = Some [0x0079], down = Some [0x0057], left = Some [0x0078], right = Some [0x007A]\<rparr>,
     \<lparr>center = [0x002C], up = Some [0x003F], down = Some [0x0027], left = Some [0x002E], right = Some [0x0021]\<rparr>,
     \<lparr>center = [0x002D], up = Some [0x002A], down = Some [0x003A], left = Some [0x002B], right = Some [0x003D]\<rparr>,
     \<lparr>center = [0x0020], up = Some [0x0031], down = Some [0x0033], left = Some [0x0030], right = Some [0x0032]\<rparr>]"

definition defaultDakutenMap :: "(jstring \<times> jstring) list" where
  "defaultDakutenMap =
    [([0x304B], [0x304C]), ([0x304D], [0x304E]), ([0x304F], [0x3050]), ([0x3051], [0x3052]), ([0x3053], [0x3054]),
     ([0x3055], [0x3056]), ([0x3057], [0x3058]), ([0x3059], [0x305A]), ([0x305B], [0x305C]), ([0x305D], [0x305E]),
     ([0x305F], [0x3060]), ([0x3061], [0x3062]), ([0x3064], [0x3065]), ([0x3066], [0x3067]), ([0x3068], [0x3069]),
     ([0x306F], [0x3070]), ([0x3072], [0x3073]), ([0x3075], [0x3076]), ([0x3078], [0x3079]), ([0x307B], [0x307C])]"

definition defaultHandakutenMap :: "(jstring \<times> jstring) list" where
  "defaultHandakutenMap =
    [([0x306F], [0x3071]), ([0x3072], [0x3074]), ([0x3075], [0x3077]), ([0x3078], [0x307A]), ([0x307B], [0x307D])]"

definition getDefaultConfig :: Config where
  "getDefaultConfig =
     \<lparr>game_duration = 60, game_countdownSeconds = 3,
      generator_hiraganaWeights = defaultHiraganaWeights,
      generator_alphabetWeights = defaultAlphabetWeights,
      flickLayout_hiragana = defaultHiraganaLayout,
      flickLayout_alphabet = defaultAlphabetLayout,
      dakutenMap = defaultDakutenMap,
      handakutenMap = defaultHandakutenMap,
      ui_visibleCharsBefore = 10, ui_visibleCharsAfter = 20, ui_flickThreshold = 30\<rparr>"

subsection \<open>Notions used in the statements and proofs about the keyboard\<close>

text \<open>A character is reachable on a key when some direction looks it up there.\<close>

definition holds :: "FlickKey \<Rightarrow> jstring \<Rightarrow> bool" where
  "holds key ch = (\<exists>d. keyCharacter key d = Some ch)"

text \<open>The field of a key object that a direction names (\<open>None\<close>: the field is absent).\<close>

definition keyField :: "FlickKey \<Rightarrow> FlickDirection \<Rightarrow> jstring option" where
  "keyField key d = (case d of Center \<Rightarrow> Some (center key) | Up \<Rightarrow> up key | Down \<Rightarrow> down key
                  | Left \<Rightarrow> left key | Right \<Rightarrow> right key)"

text \<open>
  A keyboard for the default hiragana layout with a callback installed, after a touch
  at the origin on the key with the given layout position.
\<close>

definition pressed :: "int \<Rightarrow> FlickKeyboard" where
  "pressed i = handleTouchStart (setOnInput (new_FlickKeyboard getDefaultConfig Hiragana)) 0 0 i"


section \<open>The character generator (engine/generator.ts)\<close>

text \<open>
  engine/seededRandom.ts is not among the sources. The generator constructs one
  \<open>SeededRandom\<close> from the seed and calls \<open>weightedPick\<close> on it, once per character, so the
  class is a parameter here: a state of type \<open>'r\<close>, the constructor from a seed, and a pick
  that returns the chosen item with the state that follows.
\<close>

record 'r SeededRandom =
  new_SeededRandom :: "int \<Rightarrow> 'r"
  weightedPick :: "'r \<Rightarrow> jstring list \<Rightarrow> real list \<Rightarrow> jstring \<times> 'r"

record 'r CharacterGenerator =
  random :: 'r
  characters_gen :: "jstring list"
  weights :: "real list"

text \<open>
  The constructor: \<open>Object.keys\<close> of the weight table of the input mode, and for each key its
  own weight (the keys of an object are distinct).
\<close>

definition new_CharacterGenerator ::
  "'r SeededRandom \<Rightarrow> int \<Rightarrow> Config \<Rightarrow> InputMode \<Rightarrow> 'r CharacterGenerator" where
  "new_CharacterGenerator rng seed cfg mode =
     (let weightConfig = (if mode = Hiragana then generator_hiraganaWeights cfg
                          else generator_alphabetWeights cfg)
      in \<lparr>random = new_SeededRandom rng seed,
          characters_gen = map fst weightConfig,
          weights = map snd weightConfig\<rparr>)"

definition generateSingleChar ::
  "'r SeededRandom \<Rightarrow> 'r CharacterGenerator \<Rightarrow> jstring \<times> 'r CharacterGenerator" where
  "generateSingleChar rng g =
     (case weightedPick rng (random g) (characters_gen g) (weights g) of
        (c, r) \<Rightarrow> (c, g\<lparr>random := r\<rparr>))"

text \<open>
  \<open>generate\<close>: the loop runs while the result is shorter than the requested length, so it
  does not return when the picks stop adding code units; not returning is \<open>None\<close>.
\<close>

partial_function (option) generate_loop ::
  "'r SeededRandom \<Rightarrow> 'r CharacterGenerator \<Rightarrow> jstring \<Rightarrow> nat
     \<Rightarrow> (jstring \<times> 'r CharacterGenerator) option" where
  "generate_loop rng g result len =
     (if length result < len
      then (case generateSingleChar rng g of (c, g') \<Rightarrow> generate_loop rng g' (result @ c) len)
      else Some (result, g))"

definition generate ::
  "'r SeededRandom \<Rightarrow> 'r CharacterGenerator \<Rightarrow> nat \<Rightarrow> (jstring \<times> 'r CharacterGenerator) option" where
  "generate rng g len = generate_loop rng g [] len"

text \<open>Every pick of a generator yields a character, that is, a string that is not empty.\<close>

definition picksCharacters :: "'r SeededRandom \<Rightarrow> 'r CharacterGenerator \<Rightarrow> bool" where
  "picksCharacters rng g =
     (\<forall>r. fst (weightedPick rng r (characters_gen g) (weights g)) \<noteq> [])"

text \<open>
  A random number generator for concrete sessions: its state counts the draws and every
  pick is the first item.
\<close>

definition firstItemRandom :: "nat SeededRandom" where
  "firstItemRandom =
     \<lparr>new_SeededRandom = (\<lambda>seed. 0),
      weightedPick = (\<lambda>r items ws. (case items of [] \<Rightarrow> [] | c # _ \<Rightarrow> c, Suc r))\<rparr>"

section \<open>Strokes, results and records (types.ts)\<close>

text \<open>
  \<open>FlickStroke\<close>, the game data that a screen is started with, \<open>GameResult\<close> and
  \<open>GameRecord\<close>; a record has the fields of a result and two more.
\<close>

record FlickStroke =
  input :: jstring
  expected :: "jstring option"
  correct :: bool
  timestamp :: int
  flickDirection :: FlickDirection

text \<open>
  A quotient of JavaScript numbers whose divisor is zero is \<open>Infinity\<close>, \<open>-Infinity\<close> or
  \<open>NaN\<close>, not a real.
\<close>

datatype jsnumber = Finite real | NonFinite

definition js_divide :: "real \<Rightarrow> real \<Rightarrow> jsnumber" where
  "js_divide a b = (if b = 0 then NonFinite else Finite (a / b))"

record GameData =
  gameMode :: GameMode
  inputMode :: InputMode
  seed :: int

record GameResult = GameData +
  cpm :: jsnumber
  accuracy :: real
  correctCount :: nat
  missCount :: nat
  charStats :: "jstring \<rightharpoonup> nat \<times> nat"
  strokes_result :: "FlickStroke list"

record GameRecord = GameResult +
  id_record :: jstring
  date :: jstring

section \<open>Score storage (storage/localStorage.ts)\<close>

text \<open>
  What the storage key holds: \<open>None\<close> when \<open>getItem\<close> gives nothing that parses (no item,
  an empty or a malformed text), otherwise the list that \<open>JSON.parse\<close> returns. Only
  \<open>saveRecord\<close> writes the key, and what it writes is the text of a list of records; the
  text that \<open>JSON.stringify\<close> makes of a list is identified with the list.
\<close>

type_synonym storage = "GameRecord list option"

definition getAllRecords :: "storage \<Rightarrow> GameRecord list" where
  "getAllRecords st = (case st of None \<Rightarrow> [] | Some records \<Rightarrow> records)"

text \<open>\<open>xs.slice(-n)\<close>: the last \<open>n\<close> elements, all of them when there are fewer.\<close>

definition slice_last :: "nat \<Rightarrow> 'a list \<Rightarrow> 'a list" where
  "slice_last n xs = drop (length xs - n) xs"

text \<open>
  \<open>saveRecord\<close>; \<open>writable\<close> tells whether \<open>localStorage.setItem\<close> succeeds. When it throws,
  the exception is caught and the key keeps what it held.
\<close>

definition saveRecord :: "bool \<Rightarrow> storage \<Rightarrow> GameRecord \<Rightarrow> storage" where
  "saveRecord writable st record =
     (let records = getAllRecords st @ [record];
          trimmed = slice_last 100 records
      in if writable then Some trimmed else st)"

text \<open>A run of calls, each with the outcome of its write.\<close>

definition saveRecords :: "storage \<Rightarrow> (bool \<times> GameRecord) list \<Rightarrow> storage" where
  "saveRecords st calls = foldl (\<lambda>s (writable, record). saveRecord writable s record) st calls"

text \<open>The records of the calls whose write succeeded, in the order of the calls.\<close>

definition saved :: "(bool \<times> GameRecord) list \<Rightarrow> GameRecord list" where
  "saved calls = map snd (filter fst calls)"

section \<open>The game screen (screens/game.ts)\<close>

text \<open>
  The fields of \<open>GameScreen\<close> that the input handler and the end of the session read or
  write. The generator and the game data are set by \<open>render\<close> before any input can arrive;
  the keyboard is dropped again by \<open>cleanup\<close>. DOM nodes and timers are not part of the
  state: the nodes exist once \<open>render\<close> has run, and what is written to them is display only.
\<close>

record 'r GameScreen =
  config :: Config
  generator :: "'r CharacterGenerator"
  flickKeyboard :: "FlickKeyboard option"
  characters :: jstring
  currentIndex :: nat
  strokes :: "FlickStroke list"
  startTime :: int
  isRunning :: bool
  isCountdown :: bool
  pendingBaseChar :: "jstring option"
  pendingDakutenType :: "DakutenType option"
  pendingDakutenCount :: nat
  gameData :: GameData

text \<open>The two characters of the diacritic key: U+309B and U+309C.\<close>

definition dakutenKey :: jstring where
  "dakutenKey = [0x309B]"

definition handakutenKey :: jstring where
  "handakutenKey = [0x309C]"

text \<open>
  \<open>renderTrack\<close> tops the practice text up with blocks of 50 characters until it reaches 50
  past the end of the visible window; the rest of the function draws.
\<close>

partial_function (option) fillCharacters ::
  "'r SeededRandom \<Rightarrow> 'r CharacterGenerator \<Rightarrow> jstring \<Rightarrow> int
     \<Rightarrow> (jstring \<times> 'r CharacterGenerator) option" where
  "fillCharacters rng g chars bound =
     (if int (length chars) < bound
      then (case generate rng g 50 of
              None \<Rightarrow> None
            | Some (block, g') \<Rightarrow> fillCharacters rng g' (chars @ block) bound)
      else Some (chars, g))"

definition renderTrack :: "'r SeededRandom \<Rightarrow> 'r GameScreen \<Rightarrow> 'r GameScreen option" where
  "renderTrack rng s =
     (let endIndex = int (currentIndex s) + ui_visibleCharsAfter (config s)
      in case fillCharacters rng (generator s) (characters s) (endIndex + 50) of
           None \<Rightarrow> None
         | Some (chars, g) \<Rightarrow> Some (s\<lparr>characters := chars, generator := g\<rparr>))"

text \<open>\<open>map[key]\<close> on a diacritic map: the value of the entry with that key, if there is one.\<close>

definition lookupMap :: "(jstring \<times> jstring) list \<Rightarrow> jstring \<Rightarrow> jstring option" where
  "lookupMap entries key = map_of entries key"

text \<open>
  What the handler reads first: \<open>this.characters[this.currentIndex]\<close>, and for the base
  character path \<open>this.flickKeyboard?.needsDakuten(expected)\<close> and
  \<open>this.flickKeyboard?.getBaseChar(expected)\<close>, which are \<open>undefined\<close> without a keyboard
  and \<open>null\<close> for an expected character that is \<open>undefined\<close>.
\<close>

definition expectedChar :: "'r GameScreen \<Rightarrow> jstring option" where
  "expectedChar s = charAt (characters s) (currentIndex s)"

definition expectedNeeds :: "'r GameScreen \<Rightarrow> DakutenType option" where
  "expectedNeeds s =
     (case (flickKeyboard s, expectedChar s) of
        (Some kb, Some e) \<Rightarrow> needsDakuten kb e
      | _ \<Rightarrow> None)"

definition expectedBase :: "'r GameScreen \<Rightarrow> jstring option" where
  "expectedBase s =
     (case (flickKeyboard s, expectedChar s) of
        (Some kb, Some e) \<Rightarrow> getBaseChar kb e
      | _ \<Rightarrow> None)"

text \<open>
  \<open>handleFlickInput\<close>. \<open>now\<close> is the value of \<open>Date.now()\<close>. \<open>updateStats\<close>,
  \<open>highlightNextKey\<close> and \<open>shakeTypingArea\<close> write to the DOM only and leave no trace here.
  The result is \<open>None\<close> when the top-up of the text does not return.
\<close>

definition handleFlickInput ::
  "'r SeededRandom \<Rightarrow> int \<Rightarrow> 'r GameScreen \<Rightarrow> jstring \<Rightarrow> FlickDirection \<Rightarrow> 'r GameScreen option" where
  "handleFlickInput rng now s char dir =
     (if isCountdown s \<or> \<not> isRunning s then Some s
      else
        let expected' = expectedChar s in
        if char = dakutenKey \<or> char = handakutenKey then
          (case pendingBaseChar s of
             None \<Rightarrow> Some s
           | Some base \<Rightarrow>
               if base = [] then Some s
               else
                 let twice = (pendingDakutenType s = Some Handakuten \<and> char = dakutenKey);
                     s1 = (if twice then s\<lparr>pendingDakutenCount := pendingDakutenCount s + 1\<rparr> else s)
                 in if twice \<and> pendingDakutenCount s1 < 2 then Some s1
                    else
                      let char1 = (if twice then handakutenKey else char);
                          entries = (if char1 = dakutenKey then dakutenMap (config s1)
                                     else handakutenMap (config s1));
                          converted = lookupMap entries base
                      in if truthy converted \<and> converted = expected' then
                           renderTrack rng
                             (s1\<lparr>strokes := strokes s1 @
                                   [\<lparr>input = (case converted of Some v \<Rightarrow> v | None \<Rightarrow> char1),
                                     expected = expected', correct = True,
                                     timestamp = now - startTime s1, flickDirection = dir\<rparr>],
                                 pendingBaseChar := None, pendingDakutenType := None,
                                 pendingDakutenCount := 0,
                                 currentIndex := currentIndex s1 + 1\<rparr>)
                         else
                           renderTrack rng
                             (s1\<lparr>strokes := strokes s1 @
                                   [\<lparr>input = (case converted of
                                                Some v \<Rightarrow> if v \<noteq> [] then v else char1
                                              | None \<Rightarrow> char1),
                                     expected = expected', correct = False,
                                     timestamp = now - startTime s1, flickDirection = dir\<rparr>],
                                 pendingBaseChar := None, pendingDakutenType := None,
                                 pendingDakutenCount := 0,
                                 currentIndex := currentIndex s1 + 1\<rparr>))
        else
          (case expectedNeeds s of
             Some kind \<Rightarrow>
               if Some char = expectedBase s then
                 Some (s\<lparr>pendingBaseChar := Some char, pendingDakutenType := Some kind,
                         pendingDakutenCount := 0\<rparr>)
               else
                 renderTrack rng
                   (s\<lparr>strokes := strokes s @
                         [\<lparr>input = char, expected = expected', correct = False,
                           timestamp = now - startTime s, flickDirection = dir\<rparr>],
                       pendingBaseChar := None, pendingDakutenType := None,
                       pendingDakutenCount := 0,
                       currentIndex := currentIndex s + 1\<rparr>)
           | None \<Rightarrow>
               renderTrack rng
                 (s\<lparr>strokes := strokes s @
                       [\<lparr>input = char, expected = expected', correct = (Some char = expected'),
                         timestamp = now - startTime s, flickDirection = dir\<rparr>],
                     pendingBaseChar := None, pendingDakutenType := None,
                     currentIndex := currentIndex s + 1\<rparr>)))"

text \<open>
  \<open>endGame\<close>: the result handed to the result screen, and the screen after \<open>cleanup\<close>.
  A stroke whose expected character is \<open>undefined\<close> is tallied under the property name
  that \<open>undefined\<close> converts to.
\<close>

definition propertyName :: "jstring option \<Rightarrow> jstring" where
  "propertyName e =
     (case e of
        Some s \<Rightarrow> s
      | None \<Rightarrow> [0x0075, 0x006E, 0x0064, 0x0065, 0x0066, 0x0069, 0x006E, 0x0065, 0x0064])"

definition tally :: "(jstring \<rightharpoonup> nat \<times> nat) \<Rightarrow> FlickStroke \<Rightarrow> (jstring \<rightharpoonup> nat \<times> nat)" where
  "tally stats stroke =
     (let name = propertyName (expected stroke);
          entry = (case stats name of None \<Rightarrow> (0, 0) | Some e \<Rightarrow> e)
      in stats(name \<mapsto> (if correct stroke then (fst entry + 1, snd entry)
                          else (fst entry, snd entry + 1))))"

definition cleanup :: "'r GameScreen \<Rightarrow> 'r GameScreen" where
  "cleanup s = s\<lparr>flickKeyboard := None, isRunning := False, isCountdown := False\<rparr>"

definition endGame :: "'r GameScreen \<Rightarrow> GameResult \<times> 'r GameScreen" where
  "endGame s =
     (let s1 = s\<lparr>isRunning := False\<rparr>;
          correctCount' = length (filter correct (strokes s1));
          missCount' = length (filter (\<lambda>x. \<not> correct x) (strokes s1));
          totalCount = length (strokes s1);
          elapsed = game_duration (config s1) / 60;
          cpm' = js_divide (real correctCount') elapsed;
          accuracy' = (if totalCount > 0 then real correctCount' / real totalCount * 100 else 0);
          charStats' = foldl tally Map.empty (strokes s1)
      in (\<lparr>gameMode = gameMode (gameData s1), inputMode = inputMode (gameData s1),
           seed = seed (gameData s1), cpm = cpm', accuracy = accuracy',
           correctCount = correctCount', missCount = missCount', charStats = charStats',
           strokes_result = strokes s1\<rparr>,
          cleanup s1))"

section \<open>Concrete sessions and records\<close>

text \<open>
  The default configuration with a weight table that holds one character, and a running
  practice session on it: the text is 100 copies of the character, which is what
  \<open>generate(100)\<close> returns when every pick is that character, and no composition is pending.
\<close>

definition configFor :: "jstring \<Rightarrow> Config" where
  "configFor ch = getDefaultConfig\<lparr>generator_hiraganaWeights := [(ch, 1)]\<rparr>"

definition session :: "jstring \<Rightarrow> nat GameScreen" where
  "session ch =
     \<lparr>config = configFor ch,
      generator = \<lparr>random = 100, characters_gen = [ch], weights = [1]\<rparr>,
      flickKeyboard = Some (setOnInput (new_FlickKeyboard (configFor ch) Hiragana)),
      characters = concat (replicate 100 ch),
      currentIndex = 0, strokes = [], startTime = 0,
      isRunning = True, isCountdown = False,
      pendingBaseChar = None, pendingDakutenType = None, pendingDakutenCount = 0,
      gameData = \<lparr>gameMode = Practice, inputMode = Hiragana, seed = 0\<rparr>\<rparr>"

text \<open>The same session after the base character of its text has been entered.\<close>

definition awaiting :: "jstring \<Rightarrow> jstring \<Rightarrow> DakutenType \<Rightarrow> nat GameScreen" where
  "awaiting ch base kind =
     (session ch)\<lparr>pendingBaseChar := Some base, pendingDakutenType := Some kind,
                  pendingDakutenCount := 0\<rparr>"

text \<open>A stroke and a record to count with.\<close>

definition sampleStroke :: "bool \<Rightarrow> FlickStroke" where
  "sampleStroke ok =
     \<lparr>input = (if ok then [0x3042] else [0x3044]), expected = Some [0x3042], correct = ok,
      timestamp = 0, flickDirection = Center\<rparr>"

definition sampleRecord :: "nat \<Rightarrow> GameRecord" where
  "sampleRecord i =
     \<lparr>gameMode = Practice, inputMode = Hiragana, seed = int i, cpm = Finite 50,
      accuracy = 100, correctCount = 50, missCount = 0, charStats = Map.empty,
      strokes_result = [], id_record = [], date = []\<rparr>"

text \<open>A session on the text a a a ... with 50 correct and 5 incorrect strokes in its log.\<close>

definition finished :: "nat GameScreen" where
  "finished = (session [0x3042])\<lparr>strokes := replicate 50 (sampleStroke True) @ replicate 5 (sampleStroke False)\<rparr>"


section \<open>The character index\<close>

lemma holds_iff:
  "holds key ch \<longleftrightarrow>
     center key = ch \<or> (ch \<noteq> [] \<and> (up key = Some ch \<or> down key = Some ch \<or> left key = Some ch \<or> right key = Some ch))"
  (is "?l \<longleftrightarrow> ?r")
proof
  assume ?l
  then obtain d where "keyCharacter key d = Some ch" unfolding holds_def by blast
  then show ?r by (cases d) (auto simp: orNull_def split: if_splits)
next
  assume r: ?r
  have "\<exists>d. keyCharacter key d = Some ch"
  proof -
    from r consider "center key = ch" | "ch \<noteq> []" "up key = Some ch" | "ch \<noteq> []" "down key = Some ch"
      | "ch \<noteq> []" "left key = Some ch" | "ch \<noteq> []" "right key = Some ch" by blast
    then show ?thesis
    proof cases
      case 1 then have "keyCharacter key Center = Some ch" by simp
      then show ?thesis ..
    next
      case 2 then have "keyCharacter key Up = Some ch" by (simp add: orNull_def)
      then show ?thesis ..
    next
      case 3 then have "keyCharacter key Down = Some ch" by (simp add: orNull_def)
      then show ?thesis ..
    next
      case 4 then have "keyCharacter key Left = Some ch" by (simp add: orNull_def)
      then show ?thesis ..
    next
      case 5 then have "keyCharacter key Right = Some ch" by (simp add: orNull_def)
      then show ?thesis ..
    qed
  qed
  then show ?l unfolding holds_def .
qed

lemma charToKey_setChar: "charToKey (setChar c key i kb) ch = (if ch = c then Some key else charToKey kb ch)"
  by (simp add: setChar_def)

lemma charToKey_setSlot:
  "charToKey (setSlot slot key i kb) ch =
     (if slot = Some ch \<and> ch \<noteq> [] then Some key else charToKey kb ch)"
  by (auto simp: setSlot_def charToKey_setChar split: option.splits)

lemma charToKey_registerKey:
  "charToKey (registerKey key i kb) ch = (if holds key ch then Some key else charToKey kb ch)"
  by (auto simp: registerKey_def charToKey_setSlot charToKey_setChar holds_iff)

lemma charToKey_registerKeys_miss:
  "\<forall>key\<in>set keys. \<not> holds key ch \<Longrightarrow> charToKey (registerKeys keys i kb) ch = charToKey kb ch"
  by (induction keys arbitrary: i kb) (simp_all add: charToKey_registerKey)

lemma charToKey_registerKeys_hit:
  "\<exists>key\<in>set keys. holds key ch \<Longrightarrow> \<forall>key\<in>set keys. holds key ch \<longrightarrow> key = k \<Longrightarrow>
   charToKey (registerKeys keys i kb) ch = Some k"
proof (induction keys arbitrary: i kb)
  case Nil
  then show ?case by simp
next
  case (Cons key keys)
  show ?case
  proof (cases "\<exists>key'\<in>set keys. holds key' ch")
    case True
    with Cons show ?thesis by simp
  next
    case False
    with Cons.prems have "holds key ch" "key = k" by auto
    with False show ?thesis
      by (simp add: charToKey_registerKeys_miss charToKey_registerKey)
  qed
qed

lemma config_setChar [simp]: "config_kb (setChar c key i kb) = config_kb kb"
  and mode_setChar [simp]: "inputMode_kb (setChar c key i kb) = inputMode_kb kb"
  by (simp_all add: setChar_def)

lemma config_setSlot [simp]: "config_kb (setSlot s key i kb) = config_kb kb"
  and mode_setSlot [simp]: "inputMode_kb (setSlot s key i kb) = inputMode_kb kb"
  by (simp_all add: setSlot_def split: option.splits)

lemma config_registerKeys [simp]: "config_kb (registerKeys keys i kb) = config_kb kb"
  and mode_registerKeys [simp]: "inputMode_kb (registerKeys keys i kb) = inputMode_kb kb"
  by (induction keys arbitrary: i kb) (simp_all add: registerKey_def)

lemma config_addMapping [simp]: "config_kb (addMapping e kb) = config_kb kb"
  and mode_addMapping [simp]: "inputMode_kb (addMapping e kb) = inputMode_kb kb"
  by (simp_all add: addMapping_def split: prod.splits option.splits)

lemma charToKey_addMapping_keep:
  "charToKey kb ch = Some k \<Longrightarrow> charToKey (addMapping e kb) ch = Some k"
  by (auto simp: addMapping_def charToKey_setChar split: prod.splits option.splits)

lemma foldl_addMapping:
  "config_kb (foldl (\<lambda>k e. addMapping e k) kb es) = config_kb kb"
  "inputMode_kb (foldl (\<lambda>k e. addMapping e k) kb es) = inputMode_kb kb"
  "charToKey kb ch = Some k \<Longrightarrow> charToKey (foldl (\<lambda>k e. addMapping e k) kb es) ch = Some k"
  by (induction es arbitrary: kb) (simp_all add: charToKey_addMapping_keep)

lemma config_new [simp]: "config_kb (new_FlickKeyboard cfg mode) = cfg"
  and mode_new [simp]: "inputMode_kb (new_FlickKeyboard cfg mode) = mode"
  by (simp_all add: new_FlickKeyboard_def buildCharToKeyMap_def addDakutenMappings_def
      foldl_addMapping Let_def)

lemma getLayout_new:
  "getLayout (new_FlickKeyboard cfg mode) =
     (if mode = Hiragana then flickLayout_hiragana cfg else flickLayout_alphabet cfg)"
  by (simp add: getLayout_def)

lemma charToKey_new:
  assumes "\<exists>key\<in>set (getLayout (new_FlickKeyboard cfg mode)). holds key ch"
    and "\<forall>key\<in>set (getLayout (new_FlickKeyboard cfg mode)). holds key ch \<longrightarrow> key = k"
  shows "charToKey (new_FlickKeyboard cfg mode) ch = Some k"
proof -
  let ?kb0 = "\<lparr>config_kb = cfg, inputMode_kb = mode, startX = 0, startY = 0, activeKey = None,
        activeKeyIndex = -1, charToKey = Map.empty, charToKeyIndex = Map.empty,
        isDragging = False, onInput = False\<rparr>"
  have l: "getLayout ?kb0 = getLayout (new_FlickKeyboard cfg mode)"
    by (simp add: getLayout_def)
  have "charToKey (registerKeys (getLayout ?kb0) 0 ?kb0) ch = Some k"
    using assms unfolding l by (rule charToKey_registerKeys_hit)
  then show ?thesis
    by (cases mode)
       (simp_all add: new_FlickKeyboard_def buildCharToKeyMap_def addDakutenMappings_def
        foldl_addMapping Let_def)
qed


lemma direction_of_held:
  assumes "holds k ch" and "charToKey kb ch = Some k"
  shows "\<exists>d. getDirectionForChar kb ch = Some d \<and> keyCharacter k d = Some ch"
proof (cases "center k = ch")
  case True
  with assms(2) have "getDirectionForChar kb ch = Some Center \<and> keyCharacter k Center = Some ch"
    by (simp add: getDirectionForChar_def)
  then show ?thesis ..
next
  case False
  with assms(1) have ne: "ch \<noteq> []"
    and slots: "up k = Some ch \<or> down k = Some ch \<or> left k = Some ch \<or> right k = Some ch"
    by (simp_all add: holds_iff)
  define d where "d = (if up k = Some ch then Up else if down k = Some ch then Down
                       else if left k = Some ch then Left else Right)"
  have "getDirectionForChar kb ch = Some d"
    using assms(2) False slots by (auto simp: getDirectionForChar_def d_def)
  moreover have "keyCharacter k d = Some ch"
    using ne slots by (auto simp: d_def orNull_def)
  ultimately show ?thesis by blast
qed

lemma charToKey_addMapping_other:
  "ch \<noteq> snd e \<Longrightarrow> charToKey (addMapping e kb) ch = charToKey kb ch"
  by (auto simp: addMapping_def charToKey_setChar split: prod.splits option.splits)

lemma charToKey_foldl_addMapping_other:
  "ch \<notin> snd ` set es \<Longrightarrow> charToKey (foldl (\<lambda>k e. addMapping e k) kb es) ch = charToKey kb ch"
  by (induction es arbitrary: kb) (simp_all add: charToKey_addMapping_other)

lemma charToKey_new_absent:
  assumes "\<forall>key\<in>set (getLayout (new_FlickKeyboard cfg mode)). \<not> holds key ch"
    and "mode = Hiragana \<longrightarrow> ch \<notin> snd ` set (dakutenMap cfg) \<and> ch \<notin> snd ` set (handakutenMap cfg)"
  shows "charToKey (new_FlickKeyboard cfg mode) ch = None"
proof -
  let ?kb0 = "\<lparr>config_kb = cfg, inputMode_kb = mode, startX = 0, startY = 0, activeKey = None,
        activeKeyIndex = -1, charToKey = Map.empty, charToKeyIndex = Map.empty,
        isDragging = False, onInput = False\<rparr>"
  have l: "getLayout ?kb0 = getLayout (new_FlickKeyboard cfg mode)"
    by (simp add: getLayout_def)
  have "charToKey (registerKeys (getLayout ?kb0) 0 ?kb0) ch = charToKey ?kb0 ch"
    using assms(1) unfolding l by (rule charToKey_registerKeys_miss)
  then show ?thesis
    using assms(2)
    by (cases mode)
       (simp_all add: new_FlickKeyboard_def buildCharToKeyMap_def addDakutenMappings_def
        charToKey_foldl_addMapping_other Let_def)
qed

lemma hira_layout: "getLayout (new_FlickKeyboard getDefaultConfig Hiragana) = defaultHiraganaLayout"
  by (simp add: getLayout_new getDefaultConfig_def)

lemma keyCharacter_cases:
  "keyCharacter key d' = Some ch \<longleftrightarrow>
     (d' = Center \<and> center key = ch) \<or> (d' = Up \<and> orNull (up key) = Some ch) \<or>
     (d' = Down \<and> orNull (down key) = Some ch) \<or> (d' = Left \<and> orNull (left key) = Some ch) \<or>
     (d' = Right \<and> orNull (right key) = Some ch)"
  by (cases d') auto

lemma pressed_simps:
  "startX (pressed i) = 0" "startY (pressed i) = 0"
  "ui_flickThreshold (config_kb (pressed i)) = 30"
  "activeKey (pressed 9) = Some (defaultHiraganaLayout ! 9)"
  by (simp_all add: pressed_def handleTouchStart_def pressKey_def setOnInput_def getLayout_def
      getDefaultConfig_def defaultHiraganaLayout_def)

lemma keyCharacter_unbound:
  "d \<noteq> Center \<Longrightarrow> \<not> truthy (keyField key d) \<Longrightarrow> keyCharacter key d = None"
  by (cases d) (simp_all add: keyField_def orNull_def)


text \<open>
  C6. Round trip of the character index. Let the keyboard be freshly constructed for a
  configuration and an input mode, and let the character \<open>ch\<close> be looked up at direction
  \<open>d\<close> of a key \<open>k\<close> of the active layout, and at no direction of any other key of that
  layout. Then \<open>getKeyForChar\<close> returns \<open>k\<close>, \<open>getDirectionForChar\<close> returns a direction
  whose lookup on the returned key yields \<open>ch\<close> again, and that direction is \<open>d\<close> whenever
  \<open>d\<close> is the only direction of \<open>k\<close> that yields \<open>ch\<close>.
\<close>

theorem char_index_round_trip:
  assumes "k \<in> set (getLayout (new_FlickKeyboard cfg mode))"
    and "keyCharacter k d = Some ch"
    and "\<forall>k'\<in>set (getLayout (new_FlickKeyboard cfg mode)). \<forall>d'. keyCharacter k' d' = Some ch \<longrightarrow> k' = k"
  shows "getKeyForChar (new_FlickKeyboard cfg mode) ch = Some k \<and>
         (\<exists>d'. getDirectionForChar (new_FlickKeyboard cfg mode) ch = Some d' \<and>
               getCharacterForDirection
                 ((new_FlickKeyboard cfg mode)\<lparr>activeKey := getKeyForChar (new_FlickKeyboard cfg mode) ch\<rparr>) d'
                 = Some ch \<and>
               ((\<forall>d''. keyCharacter k d'' = Some ch \<longrightarrow> d'' = d) \<longrightarrow> d' = d))"
proof -
  let ?kb = "new_FlickKeyboard cfg mode"
  have h: "holds k ch" using assms(2) unfolding holds_def by blast
  have "\<exists>key\<in>set (getLayout ?kb). holds key ch" using assms(1) h by blast
  moreover have "\<forall>key\<in>set (getLayout ?kb). holds key ch \<longrightarrow> key = k"
    using assms(3) unfolding holds_def by blast
  ultimately have c: "charToKey ?kb ch = Some k" by (rule charToKey_new)
  from direction_of_held [OF h c]
  obtain d' where d': "getDirectionForChar ?kb ch = Some d'" "keyCharacter k d' = Some ch" by blast
  have "getCharacterForDirection (?kb\<lparr>activeKey := getKeyForChar ?kb ch\<rparr>) d' = Some ch"
    using c d'(2) by (simp add: getKeyForChar_def getCharacterForDirection_def)
  with c d' show ?thesis
    unfolding getKeyForChar_def by blast
qed


text \<open>The hiragana hi (U+3072) sits on the left of the sixth key of the default layout.\<close>

theorem char_index_round_trip_witness:
  "getKeyForChar (new_FlickKeyboard getDefaultConfig Hiragana) [0x3072] = Some (defaultHiraganaLayout ! 5) \<and>
   getDirectionForChar (new_FlickKeyboard getDefaultConfig Hiragana) [0x3072] = Some Left"
proof -
  let ?k = "defaultHiraganaLayout ! 5"
  have 1: "?k \<in> set (getLayout (new_FlickKeyboard getDefaultConfig Hiragana))"
    unfolding hira_layout by (simp add: defaultHiraganaLayout_def)
  have 2: "keyCharacter ?k Left = Some [0x3072]"
    by (simp add: defaultHiraganaLayout_def orNull_def)
  have 3: "\<forall>k'\<in>set (getLayout (new_FlickKeyboard getDefaultConfig Hiragana)).
             \<forall>d'. keyCharacter k' d' = Some [0x3072] \<longrightarrow> k' = ?k"
    unfolding hira_layout
    by (simp add: defaultHiraganaLayout_def keyCharacter_cases orNull_def)
  have 4: "\<forall>d''. keyCharacter ?k d'' = Some [0x3072] \<longrightarrow> d'' = Left"
    by (simp add: defaultHiraganaLayout_def keyCharacter_cases orNull_def)
  from char_index_round_trip [OF 1 2 3] 4 show ?thesis by auto
qed


section \<open>Lookup misses\<close>

text \<open>
  C8. Lookup misses are values, not exceptions. A character absent from the index makes
  \<open>getKeyForChar\<close> return \<open>null\<close>; a direction other than the centre whose field on the active key
  is absent or empty makes \<open>getCharacterForDirection\<close> return \<open>null\<close>; and a release (touch or mouse) whose
  resolved character is \<open>null\<close> returns its result, invokes no input callback and only
  clears the active gesture.
\<close>

theorem lookup_miss_is_null:
  "(charToKey kb ch = None \<longrightarrow> getKeyForChar kb ch = None) \<and>
   (activeKey kb = Some key \<and> d \<noteq> Center \<and> \<not> truthy (keyField key d) \<longrightarrow>
      getCharacterForDirection kb d = None) \<and>
   (activeKey kb = Some key \<and> getCharacterForDirection kb (calculateDirection kb x y) = None \<longrightarrow>
      handleTouchEnd kb x y =
        (Some \<lparr>direction = calculateDirection kb x y, character = None\<rparr>, None,
         kb\<lparr>activeKey := None, activeKeyIndex := -1\<rparr>)) \<and>
   (activeKey kb = Some key \<and> isDragging kb \<and>
    getCharacterForDirection kb (calculateDirection kb x y) = None \<longrightarrow>
      handleMouseUp kb x y =
        (Some \<lparr>direction = calculateDirection kb x y, character = None\<rparr>, None,
         kb\<lparr>isDragging := False, activeKey := None, activeKeyIndex := -1\<rparr>))"
proof (intro conjI impI)
  show "getKeyForChar kb ch = None" if "charToKey kb ch = None"
    using that by (simp add: getKeyForChar_def)
  show "getCharacterForDirection kb d = None"
    if "activeKey kb = Some key \<and> d \<noteq> Center \<and> \<not> truthy (keyField key d)"
    using that by (simp add: getCharacterForDirection_def keyCharacter_unbound)
  show "handleTouchEnd kb x y =
        (Some \<lparr>direction = calculateDirection kb x y, character = None\<rparr>, None,
         kb\<lparr>activeKey := None, activeKeyIndex := -1\<rparr>)"
    if "activeKey kb = Some key \<and> getCharacterForDirection kb (calculateDirection kb x y) = None"
    using that by (simp add: handleTouchEnd_def invokeOnInput_def Let_def)
  show "handleMouseUp kb x y =
        (Some \<lparr>direction = calculateDirection kb x y, character = None\<rparr>, None,
         kb\<lparr>isDragging := False, activeKey := None, activeKeyIndex := -1\<rparr>)"
    if "activeKey kb = Some key \<and> isDragging kb \<and>
        getCharacterForDirection kb (calculateDirection kb x y) = None"
  proof -
    have "calculateDirection (kb\<lparr>isDragging := False\<rparr>) x y = calculateDirection kb x y"
      by (simp add: calculateDirection_def)
    moreover have "getCharacterForDirection (kb\<lparr>isDragging := False\<rparr>) dir = getCharacterForDirection kb dir" for dir
      by (simp add: getCharacterForDirection_def)
    ultimately show ?thesis
      using that by (simp add: handleMouseUp_def invokeOnInput_def Let_def)
  qed
qed


section \<open>Direction classification\<close>

lemma atan2_values:
  "atan2 0 100 = 0" "atan2 100 0 = pi / 2" "atan2 0 (-100) = pi" "atan2 (-100) 0 = - (pi / 2)"
  "atan2 100 100 = pi / 4"
  by (simp_all add: atan2_def arctan_one)

lemma far: "\<not> sqrt (100 * 100 + 0 * 0) < (30::real)" "\<not> sqrt (0 * 0 + 100 * 100) < (30::real)"
  "\<not> sqrt (-100 * -100 + 0 * 0) < (30::real)" "\<not> sqrt (0 * 0 + -100 * -100) < (30::real)"
  "\<not> sqrt (100 * 100 + 100 * 100) < (30::real)"
  by (simp_all add: real_less_lsqrt not_less real_le_rsqrt)

lemma far_diagonal: "\<not> sqrt 20000 < (30::real)"
  by (simp add: not_less real_le_rsqrt)


text \<open>
  C4. Direction classification. With \<open>dx\<close>, \<open>dy\<close> the drag vector, \<open>distance\<close> its Euclidean
  length and \<open>angle\<close> its \<open>atan2\<close> angle in degrees: a distance below the threshold gives
  \<open>Center\<close>; otherwise an angle in \<open>[-45, 45)\<close> gives \<open>Right\<close>, in \<open>[45, 135)\<close> \<open>Down\<close>, in
  \<open>[-135, -45)\<close> \<open>Up\<close>, and every other angle \<open>Left\<close>. The function is total with the five
  values of \<open>FlickDirection\<close>, and each boundary angle belongs to the bucket that starts there.
\<close>

theorem calculateDirection_buckets:
  assumes "dx = endX - startX kb" and "dy = endY - startY kb"
    and "distance = sqrt (dx * dx + dy * dy)"
    and "angle = atan2 dy dx * (180 / pi)"
  shows "(distance < ui_flickThreshold (config_kb kb) \<longrightarrow> calculateDirection kb endX endY = Center) \<and>
         (\<not> distance < ui_flickThreshold (config_kb kb) \<longrightarrow>
            (-45 \<le> angle \<and> angle < 45 \<longrightarrow> calculateDirection kb endX endY = Right) \<and>
            (45 \<le> angle \<and> angle < 135 \<longrightarrow> calculateDirection kb endX endY = Down) \<and>
            (-135 \<le> angle \<and> angle < -45 \<longrightarrow> calculateDirection kb endX endY = Up) \<and>
            (angle < -135 \<or> 135 \<le> angle \<longrightarrow> calculateDirection kb endX endY = Left)) \<and>
         calculateDirection kb endX endY \<in> {Center, Up, Down, Left, Right}"
proof -
  have "calculateDirection kb endX endY \<in> {Center, Up, Down, Left, Right}"
    by (cases "calculateDirection kb endX endY") simp_all
  with assms show ?thesis by (auto simp: calculateDirection_def Let_def)
qed


text \<open>
  The five axis cases with the default threshold of 30 pixels, and the diagonal at exactly
  45 degrees, which is classified \<open>Down\<close>.
\<close>

theorem calculateDirection_buckets_witness:
  "calculateDirection (pressed 5) 0 0 = Center \<and>
   calculateDirection (pressed 5) 100 0 = Right \<and>
   calculateDirection (pressed 5) 0 100 = Down \<and>
   calculateDirection (pressed 5) (-100) 0 = Left \<and>
   calculateDirection (pressed 5) 0 (-100) = Up \<and>
   calculateDirection (pressed 5) 100 100 = Down"
  using calculateDirection_buckets [where kb="pressed 5" and endX="0" and endY="0", OF refl refl refl refl]
    calculateDirection_buckets [where kb="pressed 5" and endX="100" and endY="0", OF refl refl refl refl]
    calculateDirection_buckets [where kb="pressed 5" and endX="0" and endY="100", OF refl refl refl refl]
    calculateDirection_buckets [where kb="pressed 5" and endX="-100" and endY="0", OF refl refl refl refl]
    calculateDirection_buckets [where kb="pressed 5" and endX="0" and endY="-100", OF refl refl refl refl]
    calculateDirection_buckets [where kb="pressed 5" and endX="100" and endY="100", OF refl refl refl refl]
  by (simp add: pressed_simps atan2_values far far_diagonal)


text \<open>
  In the default hiragana layout the Latin letter a is on no key, and the key of the
  voicing mark has no character below it.
\<close>

theorem lookup_miss_is_null_witness:
  "getKeyForChar (new_FlickKeyboard getDefaultConfig Hiragana) [0x0061] = None \<and>
   getCharacterForDirection (pressed 9) Down = None \<and>
   handleTouchEnd (pressed 9) 0 100 =
     (Some \<lparr>direction = Down, character = None\<rparr>, None,
      (pressed 9)\<lparr>activeKey := None, activeKeyIndex := -1\<rparr>)"
proof -
  have a: "charToKey (new_FlickKeyboard getDefaultConfig Hiragana) [0x0061] = None"
  proof (rule charToKey_new_absent)
    show "\<forall>key\<in>set (getLayout (new_FlickKeyboard getDefaultConfig Hiragana)). \<not> holds key [0x0061]"
      unfolding hira_layout by (simp add: defaultHiraganaLayout_def holds_iff)
    show "Hiragana = Hiragana \<longrightarrow> [0x0061] \<notin> snd ` set (dakutenMap getDefaultConfig) \<and>
            [0x0061] \<notin> snd ` set (handakutenMap getDefaultConfig)"
      by (simp add: getDefaultConfig_def defaultDakutenMap_def defaultHandakutenMap_def)
  qed
  have b: "Down \<noteq> Center" "\<not> truthy (keyField (defaultHiraganaLayout ! 9) Down)"
    by (simp_all add: keyField_def defaultHiraganaLayout_def)
  have d: "calculateDirection (pressed 9) 0 100 = Down"
    by (simp add: calculateDirection_def pressed_simps atan2_values far)
  have c: "getCharacterForDirection (pressed 9) Down = None"
    by (simp add: getCharacterForDirection_def pressed_simps defaultHiraganaLayout_def orNull_def)
  from lookup_miss_is_null [where kb="new_FlickKeyboard getDefaultConfig Hiragana" and ch="[0x0061]"] a
    lookup_miss_is_null [where kb="pressed 9" and key="defaultHiraganaLayout ! 9" and d=Down and x=0 and y=100] b c d
  show ?thesis by (simp add: pressed_simps)
qed


section \<open>Determinism of the generator\<close>

lemma generate_loop_done:
  "\<not> length res < len \<Longrightarrow> generate_loop rng g res len = Some (res, g)"
  by (subst generate_loop.simps) simp

lemma generate_loop_step:
  "length res < len \<Longrightarrow> generateSingleChar rng g = (c, g') \<Longrightarrow>
   generate_loop rng g res len = generate_loop rng g' (res @ c) len"
  by (subst generate_loop.simps) simp

lemma generateSingleChar_picks:
  assumes "picksCharacters rng g" and "generateSingleChar rng g = (c, g')"
  shows "c \<noteq> []" and "picksCharacters rng g'"
    and "characters_gen g' = characters_gen g" and "weights g' = weights g"
  using assms
  by (auto simp: picksCharacters_def generateSingleChar_def split: prod.splits)
     (metis fst_conv)

lemma generate_loop_returns:
  "picksCharacters rng g \<Longrightarrow>
   \<exists>x g'. generate_loop rng g res len = Some (x, g') \<and> len \<le> length x \<and>
          take (length res) x = res \<and> picksCharacters rng g'"
proof (induction "len - length res" arbitrary: g res rule: less_induct)
  case less
  show ?case
  proof (cases "length res < len")
    case False
    with less.prems show ?thesis by (simp add: generate_loop_done)
  next
    case True
    obtain c g1 where step: "generateSingleChar rng g = (c, g1)" by (cases "generateSingleChar rng g")
    from generateSingleChar_picks [OF less.prems step]
    have c: "c \<noteq> []" and g1: "picksCharacters rng g1" by simp_all
    from c True have "len - length (res @ c) < len - length res" by (cases c) auto
    from less.hyps [OF this g1]
    obtain x g' where x: "generate_loop rng g1 (res @ c) len = Some (x, g')" "len \<le> length x"
      "take (length (res @ c)) x = res @ c" "picksCharacters rng g'" by blast
    from x(3) have "take (length res) x = res"
      by (metis append_eq_conv_conj take_take min.cobounded1 length_append le_add1 min_absorb1)
    with x show ?thesis by (simp add: generate_loop_step [OF True step])
  qed
qed

lemma generate_loop_agree:
  assumes "picksCharacters rng g" and "n \<le> m"
  shows "\<exists>x gx y gy. generate_loop rng g res n = Some (x, gx) \<and>
           generate_loop rng g res m = Some (y, gy) \<and> take (length x) y = x"
  using assms(1)
proof (induction "m - length res" arbitrary: g res rule: less_induct)
  case less
  show ?case
  proof (cases "length res < m")
    case False
    with assms(2) have "\<not> length res < n" by simp
    with False show ?thesis by (simp add: generate_loop_done)
  next
    case True
    obtain c g1 where step: "generateSingleChar rng g = (c, g1)" by (cases "generateSingleChar rng g")
    from generateSingleChar_picks [OF less.prems step]
    have c: "c \<noteq> []" and g1: "picksCharacters rng g1" by simp_all
    from c True have dec: "m - length (res @ c) < m - length res" by (cases c) auto
    show ?thesis
    proof (cases "length res < n")
      case True
      from less.hyps [OF dec g1] show ?thesis
        by (simp add: generate_loop_step [OF True step] generate_loop_step [OF \<open>length res < m\<close> step])
    next
      case False
      from generate_loop_returns [OF g1, of "res @ c" m]
      obtain y gy where y: "generate_loop rng g1 (res @ c) m = Some (y, gy)"
        "take (length (res @ c)) y = res @ c" by blast
      from y(2) have "take (length res) y = res"
        by (metis append_eq_conv_conj take_take min.cobounded1 length_append le_add1 min_absorb1)
      with y False show ?thesis
        by (simp add: generate_loop_done generate_loop_step [OF True step])
    qed
  qed
qed


text \<open>
  C3. Two freshly constructed generators with the same seed, configuration and input mode
  both return, \<open>generate(n)\<close> with at least \<open>n\<close> and \<open>generate(m)\<close> with at least \<open>m\<close> code
  units, and the two results agree on their first \<open>min n m\<close> code units. The random number
  generator is any one whose picks for this generator are characters.
\<close>

theorem generate_deterministic:
  assumes "picksCharacters rng (new_CharacterGenerator rng sd cfg mode)"
  shows "\<exists>x gx y gy.
           generate rng (new_CharacterGenerator rng sd cfg mode) n = Some (x, gx) \<and>
           generate rng (new_CharacterGenerator rng sd cfg mode) m = Some (y, gy) \<and>
           n \<le> length x \<and> m \<le> length y \<and>
           take (min n m) x = take (min n m) y"
proof -
  let ?g = "new_CharacterGenerator rng sd cfg mode"
  from generate_loop_returns [OF assms, of "[]" n] generate_loop_returns [OF assms, of "[]" m]
  obtain x gx y gy where x: "generate rng ?g n = Some (x, gx)" "n \<le> length x"
    and y: "generate rng ?g m = Some (y, gy)" "m \<le> length y"
    unfolding generate_def by blast
  have "take (min n m) x = take (min n m) y"
  proof (cases "n \<le> m")
    case True
    from generate_loop_agree [OF assms True, of "[]"] x(1) y(1)
    have "take (length x) y = x" unfolding generate_def by auto
    then have "take (min n m) (take (length x) y) = take (min n m) x" by simp
    with x(2) True show ?thesis by (simp add: min_absorb1)
  next
    case False
    then have mn: "m \<le> n" by simp
    from generate_loop_agree [OF assms mn, of "[]"] x(1) y(1)
    have "take (length y) x = y" unfolding generate_def by auto
    then have "take (min n m) (take (length y) x) = take (min n m) y" by simp
    with y(2) mn show ?thesis by (simp add: min_absorb1 min.commute)
  qed
  with x y show ?thesis by blast
qed

lemma picksCharacters_firstItem:
  "picksCharacters firstItemRandom (new_CharacterGenerator firstItemRandom sd getDefaultConfig Hiragana)"
  by (simp add: picksCharacters_def firstItemRandom_def new_CharacterGenerator_def
      getDefaultConfig_def defaultHiraganaWeights_def)


text \<open>The default hiragana table with the generator that always draws the first item.\<close>

theorem generate_deterministic_witness:
  "picksCharacters firstItemRandom (new_CharacterGenerator firstItemRandom 20261103 getDefaultConfig Hiragana) \<and>
   (\<exists>x gx y gy.
      generate firstItemRandom (new_CharacterGenerator firstItemRandom 20261103 getDefaultConfig Hiragana) 3
        = Some (x, gx) \<and>
      generate firstItemRandom (new_CharacterGenerator firstItemRandom 20261103 getDefaultConfig Hiragana) 5
        = Some (y, gy) \<and>
      3 \<le> length x \<and> 5 \<le> length y \<and> take (min 3 5) x = take (min 3 5) y)"
  using generate_deterministic [OF picksCharacters_firstItem, of 20261103 3 5]
    picksCharacters_firstItem [of 20261103]
  by simp


section \<open>The stored records\<close>

lemma length_slice_last: "length (slice_last n xs) = min n (length xs)"
  by (simp add: slice_last_def)

lemma slice_last_append_slice:
  "slice_last n (slice_last n xs @ ys) = slice_last n (xs @ ys)"
  by (cases "n \<le> length xs") (simp_all add: slice_last_def add.commute)

lemma getAllRecords_saveRecords:
  "getAllRecords (saveRecords st calls) =
     (if saved calls = [] then getAllRecords st
      else slice_last 100 (getAllRecords st @ saved calls))"
proof (induction calls rule: rev_induct)
  case Nil
  show ?case by (simp add: saveRecords_def saved_def)
next
  case (snoc c calls)
  obtain w r where c: "c = (w, r)" by (cases c)
  have step: "saveRecords st (calls @ [(b, r)]) = saveRecord b (saveRecords st calls) r" for b
    by (simp add: saveRecords_def)
  show ?case
  proof (cases w)
    case False
    with snoc show ?thesis unfolding c by (simp add: step saveRecord_def saved_def)
  next
    case True
    have "getAllRecords (saveRecord True (saveRecords st calls) r) =
            slice_last 100 (getAllRecords (saveRecords st calls) @ [r])"
      by (simp add: saveRecord_def getAllRecords_def)
    also have "\<dots> = slice_last 100 (getAllRecords st @ saved calls @ [r])"
      using snoc slice_last_append_slice [of 100 "getAllRecords st @ saved calls" "[r]"]
      by (simp split: if_splits)
    finally show ?thesis using True unfolding c by (simp add: step saved_def)
  qed
qed

lemma saved_all: "saved (map (\<lambda>i. (True, f i)) xs) = map f xs"
  by (induction xs) (simp_all add: saved_def)


text \<open>
  C9. After a call of \<open>saveRecord\<close> whose write succeeds the stored list has at most 100
  records; a run of calls, failed writes included, keeps a list of at most 100 records
  within that bound; and once more than 100 records have been written, the stored list is
  exactly the last 100 of them, in the order in which they were saved.
\<close>

theorem saveRecord_keeps_latest_100:
  "length (getAllRecords (saveRecord True st record)) \<le> 100 \<and>
   (length (getAllRecords st) \<le> 100 \<longrightarrow>
      length (getAllRecords (saveRecords st calls)) \<le> 100) \<and>
   (100 < length (saved calls) \<longrightarrow>
      getAllRecords (saveRecords st calls) = drop (length (saved calls) - 100) (saved calls) \<and>
      length (getAllRecords (saveRecords st calls)) = 100)"
proof (intro conjI impI)
  show "length (getAllRecords (saveRecord True st record)) \<le> 100"
    by (simp add: saveRecord_def getAllRecords_def length_slice_last)
  show "length (getAllRecords (saveRecords st calls)) \<le> 100" if "length (getAllRecords st) \<le> 100"
    using that by (simp add: getAllRecords_saveRecords length_slice_last)
  assume big: "100 < length (saved calls)"
  then have ne: "saved calls \<noteq> []" by auto
  from big show "getAllRecords (saveRecords st calls) = drop (length (saved calls) - 100) (saved calls)"
    by (simp add: getAllRecords_saveRecords ne slice_last_def)
  with big show "length (getAllRecords (saveRecords st calls)) = 100" by simp
qed


text \<open>101 records saved into an empty storage: the first one is gone.\<close>

theorem saveRecord_keeps_latest_100_witness:
  "100 < length (saved (map (\<lambda>i. (True, sampleRecord i)) [0..<101])) \<and>
   getAllRecords (saveRecords None (map (\<lambda>i. (True, sampleRecord i)) [0..<101])) =
     map sampleRecord [1..<101] \<and>
   length (getAllRecords (saveRecords None (map (\<lambda>i. (True, sampleRecord i)) [0..<101]))) = 100"
proof -
  have "100 < length (saved (map (\<lambda>i. (True, sampleRecord i)) [0..<101]))"
    by (simp add: saved_all)
  moreover have "drop (length (saved (map (\<lambda>i. (True, sampleRecord i)) [0..<101])) - 100)
          (saved (map (\<lambda>i. (True, sampleRecord i)) [0..<101])) = map sampleRecord [1..<101]"
    by (simp add: saved_all drop_map)
  ultimately show ?thesis
    using saveRecord_keeps_latest_100 [of None _ "map (\<lambda>i. (True, sampleRecord i)) [0..<101]"]
    by simp
qed


section \<open>The input composition state machine\<close>

subsection \<open>The top-up of the practice text returns\<close>

lemma generate_returns:
  "picksCharacters rng g \<Longrightarrow>
   \<exists>x g'. generate rng g len = Some (x, g') \<and> len \<le> length x \<and> picksCharacters rng g'"
  using generate_loop_returns [of rng g "[]" len] unfolding generate_def by auto

lemma fillCharacters_done:
  "\<not> int (length chars) < bound \<Longrightarrow> fillCharacters rng g chars bound = Some (chars, g)"
  by (subst fillCharacters.simps) simp

lemma fillCharacters_step:
  "int (length chars) < bound \<Longrightarrow> generate rng g 50 = Some (block, g') \<Longrightarrow>
   fillCharacters rng g chars bound = fillCharacters rng g' (chars @ block) bound"
  by (subst fillCharacters.simps) simp

lemma fillCharacters_returns:
  "picksCharacters rng g \<Longrightarrow> \<exists>chars' g'. fillCharacters rng g chars bound = Some (chars', g')"
proof (induction "nat (bound - int (length chars))" arbitrary: g chars rule: less_induct)
  case less
  show ?case
  proof (cases "int (length chars) < bound")
    case False
    then show ?thesis by (simp add: fillCharacters_done)
  next
    case True
    from generate_returns [OF less.prems, of 50]
    obtain block g1 where b: "generate rng g 50 = Some (block, g1)" "50 \<le> length block"
      "picksCharacters rng g1" by blast
    from True b(2) have "nat (bound - int (length (chars @ block))) < nat (bound - int (length chars))"
      by auto
    from less.hyps [OF this b(3)] show ?thesis
      by (simp add: fillCharacters_step [OF True b(1)])
  qed
qed

lemma renderTrack_returns:
  assumes "picksCharacters rng (generator s)"
  shows "\<exists>chars g. renderTrack rng s = Some (s\<lparr>characters := chars, generator := g\<rparr>)"
proof -
  from fillCharacters_returns [OF assms]
  obtain chars g where
    "fillCharacters rng (generator s) (characters s)
       (int (currentIndex s) + ui_visibleCharsAfter (config s) + 50) = Some (chars, g)"
    by blast
  then have "renderTrack rng s = Some (s\<lparr>characters := chars, generator := g\<rparr>)"
    by (simp add: renderTrack_def)
  then show ?thesis by blast
qed

lemma renderTrack_filled:
  "\<not> int (length (characters s)) < int (currentIndex s) + ui_visibleCharsAfter (config s) + 50 \<Longrightarrow>
   renderTrack rng s = Some s"
  by (simp add: renderTrack_def fillCharacters_done)


subsection \<open>The concrete sessions\<close>

lemma concat_replicate_single: "concat (replicate n [u]) = replicate n u"
  by (induction n) simp_all

lemma session_simps:
  "isCountdown (session ch) = False" "isRunning (session ch) = True"
  "pendingBaseChar (session ch) = None" "strokes (session ch) = []"
  "currentIndex (session ch) = 0" "startTime (session ch) = 0"
  "config (session ch) = configFor ch"
  "flickKeyboard (session ch) = Some (setOnInput (new_FlickKeyboard (configFor ch) Hiragana))"
  "characters (session [u]) = replicate 100 u"
  by (simp_all add: session_def concat_replicate_single)

lemma awaiting_simps:
  "isCountdown (awaiting ch b k) = False" "isRunning (awaiting ch b k) = True"
  "pendingBaseChar (awaiting ch b k) = Some b" "pendingDakutenType (awaiting ch b k) = Some k"
  "pendingDakutenCount (awaiting ch b k) = 0" "strokes (awaiting ch b k) = []"
  "currentIndex (awaiting ch b k) = 0" "startTime (awaiting ch b k) = 0"
  "config (awaiting ch b k) = configFor ch"
  "generator (awaiting ch b k) = generator (session ch)"
  by (simp_all add: awaiting_def session_simps)

lemma expectedChar_session: "expectedChar (session [u]) = Some [u]"
  by (simp add: expectedChar_def session_simps charAt_def)

lemma expectedChar_awaiting: "expectedChar (awaiting [u] b k) = Some [u]"
  by (simp add: expectedChar_def awaiting_def session_simps charAt_def)

lemma config_kb_session:
  "config_kb (setOnInput (new_FlickKeyboard (configFor ch) Hiragana)) = configFor ch"
  by (simp add: setOnInput_def)

lemma maps_configFor:
  "dakutenMap (configFor ch) = defaultDakutenMap"
  "handakutenMap (configFor ch) = defaultHandakutenMap"
  "ui_visibleCharsAfter (configFor ch) = 20"
  by (simp_all add: configFor_def getDefaultConfig_def)

lemma needs_a: "expectedNeeds (session [0x3042]) = None"
  by (simp add: expectedNeeds_def expectedChar_session session_simps needsDakuten_def
      config_kb_session maps_configFor defaultDakutenMap_def defaultHandakutenMap_def)

lemma needs_ga: "expectedNeeds (session [0x304C]) = Some Dakuten"
  by (simp add: expectedNeeds_def expectedChar_session session_simps needsDakuten_def
      config_kb_session maps_configFor defaultDakutenMap_def defaultHandakutenMap_def)

lemma base_ga: "expectedBase (session [0x304C]) = Some [0x304B]"
  by (simp add: expectedBase_def expectedChar_session session_simps getBaseChar_def reverseLookup_def
      config_kb_session maps_configFor defaultDakutenMap_def defaultHandakutenMap_def)

lemma needs_pa: "expectedNeeds (session [0x3071]) = Some Handakuten"
  by (simp add: expectedNeeds_def expectedChar_session session_simps needsDakuten_def
      config_kb_session maps_configFor defaultDakutenMap_def defaultHandakutenMap_def)

lemma base_pa: "expectedBase (session [0x3071]) = Some [0x306F]"
  by (simp add: expectedBase_def expectedChar_session session_simps getBaseChar_def reverseLookup_def
      config_kb_session maps_configFor defaultDakutenMap_def defaultHandakutenMap_def)

lemma expected_awaiting:
  "expectedNeeds (awaiting ch b k) = expectedNeeds (session ch)"
  "expectedBase (awaiting ch b k) = expectedBase (session ch)"
  by (simp_all add: expectedNeeds_def expectedBase_def expectedChar_def awaiting_def)

lemma picks_session: "ch \<noteq> [] \<Longrightarrow> picksCharacters firstItemRandom (generator (session ch))"
  by (simp add: picksCharacters_def firstItemRandom_def session_def)

lemma handakuten_lookup: "lookupMap (handakutenMap (configFor ch)) [0x306F] = Some [0x3071]"
  by (simp add: lookupMap_def maps_configFor defaultHandakutenMap_def)

lemma keys_distinct:
  "dakutenKey \<noteq> handakutenKey" "handakutenKey \<noteq> dakutenKey"
  "[0x3042] \<noteq> dakutenKey" "[0x3042] \<noteq> handakutenKey"
  "[0x3055] \<noteq> dakutenKey" "[0x3055] \<noteq> handakutenKey"
  "[0x304B] \<noteq> dakutenKey" "[0x304B] \<noteq> handakutenKey"
  by (simp_all add: dakutenKey_def handakutenKey_def)

text \<open>
  The text and the generator of a concrete session are what \<open>generate(100)\<close> returns on a
  fresh generator for its configuration, its awaiting states are reached by entering the
  base character, and a tap on the tenth key of the default layout delivers the voicing mark.
\<close>

lemma generate_loop_firstItem:
  "generate_loop firstItemRandom \<lparr>random = r, characters_gen = [u] # [], weights = ws\<rparr> res len =
     Some (res @ replicate (len - length res) u,
           \<lparr>random = r + (len - length res), characters_gen = [u] # [], weights = ws\<rparr>)"
proof (induction "len - length res" arbitrary: r res)
  case 0
  then show ?case by (simp add: generate_loop_done)
next
  case (Suc k)
  then have lt: "length res < len" and k: "k = len - length (res @ [u])" by simp_all
  have step: "generateSingleChar firstItemRandom \<lparr>random = r, characters_gen = [u] # [], weights = ws\<rparr> =
      ([u], \<lparr>random = Suc r, characters_gen = [u] # [], weights = ws\<rparr>)"
    by (simp add: generateSingleChar_def firstItemRandom_def)
  from Suc.hyps(2) have len: "len - length res = Suc (len - Suc (length res))" by simp
  show ?case
    unfolding generate_loop_step [OF lt step] Suc.hyps(1) [OF k]
    by (simp add: len replicate_append_same [symmetric] del: replicate_Suc)
       (simp add: replicate_append_same)
qed

lemma new_firstItemRandom: "new_SeededRandom firstItemRandom sd = 0"
  by (simp add: firstItemRandom_def)

lemma session_text:
  "generate firstItemRandom (new_CharacterGenerator firstItemRandom sd (configFor [u]) Hiragana) 100 =
     Some (characters (session [u]), generator (session [u]))"
  by (simp add: generate_def new_CharacterGenerator_def configFor_def new_firstItemRandom
      generate_loop_firstItem session_simps session_def concat_replicate_single)

lemma awaiting_reached:
  "handleFlickInput firstItemRandom 900 (session [0x304C]) [0x304B] Center
     = Some (awaiting [0x304C] [0x304B] Dakuten)"
  by (simp add: handleFlickInput_def session_simps keys_distinct needs_ga base_ga awaiting_def)

lemma toggle_emitted:
  "handleTouchEnd (pressed 9) 0 0 =
     (Some \<lparr>direction = Center, character = Some dakutenKey\<rparr>, Some (dakutenKey, Center),
      (pressed 9)\<lparr>activeKey := None, activeKeyIndex := -1\<rparr>)"
  by (simp add: handleTouchEnd_def calculateDirection_def getCharacterForDirection_def
      invokeOnInput_def pressed_simps dakutenKey_def defaultHiraganaLayout_def)
     (simp add: pressed_def handleTouchStart_def pressKey_def setOnInput_def)

lemma awaiting_pa_reached:
  "handleFlickInput firstItemRandom 900 (session [0x3071]) [0x306F] Center
     = Some (awaiting [0x3071] [0x306F] Handakuten)"
  by (simp add: handleFlickInput_def session_simps dakutenKey_def handakutenKey_def needs_pa base_pa awaiting_def)

subsection \<open>The pending composition follows the expected character\<close>

text \<open>
  The awaiting state is a pending base character together with an expected character that
  needs a diacritic, of the pending kind and with the pending base as its base character.
  Every call of the handler keeps this relation: a pending base is only ever set from the
  expected character, and the cursor only moves when the pending base is cleared.
\<close>

lemma renderTrack_pending:
  "renderTrack rng t = Some s' \<Longrightarrow> pendingBaseChar s' = pendingBaseChar t"
  by (auto simp: renderTrack_def split: option.splits)

lemma handleFlickInput_outcome:
  assumes "handleFlickInput rng now s c dir = Some s'"
  shows "s' = s \<or> s' = s\<lparr>pendingDakutenCount := pendingDakutenCount s + 1\<rparr> \<or>
     (\<exists>kind. expectedNeeds s = Some kind \<and> Some c = expectedBase s \<and>
        s' = s\<lparr>pendingBaseChar := Some c, pendingDakutenType := Some kind,
               pendingDakutenCount := 0\<rparr>) \<or>
     pendingBaseChar s' = None"
proof (cases "isCountdown s \<or> \<not> isRunning s")
  case True
  with assms show ?thesis by (simp add: handleFlickInput_def)
next
  case run: False
  show ?thesis
  proof (cases "c = dakutenKey \<or> c = handakutenKey")
    case toggle: True
    show ?thesis
    proof (cases "pendingBaseChar s")
      case None
      with assms run toggle show ?thesis by (simp add: handleFlickInput_def)
    next
      case (Some base)
      show ?thesis
      proof (cases "base = []")
        case True
        with assms run toggle Some show ?thesis by (simp add: handleFlickInput_def)
      next
        case False
        show ?thesis
        proof (cases "pendingDakutenType s = Some Handakuten \<and> c = dakutenKey \<and> pendingDakutenCount s + 1 < 2")
          case True
          with assms run toggle Some False show ?thesis by (simp add: handleFlickInput_def Let_def)
        next
          case nf: False
          from assms run toggle Some False nf
          obtain t where "renderTrack rng t = Some s'" "pendingBaseChar t = None"
            by (auto simp: handleFlickInput_def Let_def split: if_splits)
          then show ?thesis by (simp add: renderTrack_pending)
        qed
      qed
    qed
  next
    case base: False
    show ?thesis
    proof (cases "expectedNeeds s")
      case None
      with assms run base
      obtain t where "renderTrack rng t = Some s'" "pendingBaseChar t = None"
        by (auto simp: handleFlickInput_def Let_def)
      then show ?thesis by (simp add: renderTrack_pending)
    next
      case (Some kind)
      show ?thesis
      proof (cases "Some c = expectedBase s")
        case True
        with assms run base Some show ?thesis by (simp add: handleFlickInput_def Let_def)
      next
        case False
        with assms run base Some
        obtain t where "renderTrack rng t = Some s'" "pendingBaseChar t = None"
          by (auto simp: handleFlickInput_def Let_def)
        then show ?thesis by (simp add: renderTrack_pending)
      qed
    qed
  qed
qed

lemma expected_unchanged:
  "expectedNeeds (s\<lparr>pendingDakutenCount := n\<rparr>) = expectedNeeds s"
  "expectedNeeds (s\<lparr>pendingBaseChar := b\<rparr>) = expectedNeeds s"
  "expectedNeeds (s\<lparr>pendingDakutenType := k\<rparr>) = expectedNeeds s"
  "expectedBase (s\<lparr>pendingDakutenCount := n\<rparr>) = expectedBase s"
  "expectedBase (s\<lparr>pendingBaseChar := b\<rparr>) = expectedBase s"
  "expectedBase (s\<lparr>pendingDakutenType := k\<rparr>) = expectedBase s"
  by (simp_all add: expectedNeeds_def expectedBase_def expectedChar_def)

lemma pending_matches_expected:
  assumes "truthy (pendingBaseChar s) \<longrightarrow>
             expectedNeeds s \<noteq> None \<and> pendingDakutenType s = expectedNeeds s \<and>
             pendingBaseChar s = expectedBase s"
    and "handleFlickInput rng now s c dir = Some s'"
  shows "truthy (pendingBaseChar s') \<longrightarrow>
           expectedNeeds s' \<noteq> None \<and> pendingDakutenType s' = expectedNeeds s' \<and>
           pendingBaseChar s' = expectedBase s'"
  using handleFlickInput_outcome [OF assms(2)] assms(1)
  by (auto simp: expected_unchanged)

subsection \<open>Input while no composition is pending\<close>

text \<open>
  The voicing mark entered in a running session on the text a a a ..., with nothing
  pending: the expected character needs no diacritic, and the handler returns the session
  as it was, with no stroke and the cursor at 0.
\<close>

theorem idle_toggle_counterexample:
  "\<not> isCountdown (session [0x3042]) \<and> isRunning (session [0x3042]) \<and>
   \<not> truthy (pendingBaseChar (session [0x3042])) \<and>
   expectedNeeds (session [0x3042]) = None \<and>
   strokes (session [0x3042]) = [] \<and> currentIndex (session [0x3042]) = 0 \<and>
   handleFlickInput firstItemRandom 1000 (session [0x3042]) dakutenKey Center
     = Some (session [0x3042])"
  by (simp add: session_simps needs_a handleFlickInput_def)


text \<open>
  C1, amended. In a running session with no composition pending and an expected character
  that needs no diacritic, an input other than the two characters of the diacritic key
  appends exactly one stroke, with that input, the expected character and their equality
  as correctness, and moves the cursor by one; a character of the diacritic key is ignored.
\<close>

theorem idle_input:
  assumes "\<not> isCountdown s" and "isRunning s"
    and "\<not> truthy (pendingBaseChar s)"
    and "expectedNeeds s = None"
    and "picksCharacters rng (generator s)"
  shows "(c \<noteq> dakutenKey \<and> c \<noteq> handakutenKey \<longrightarrow>
           (\<exists>s'. handleFlickInput rng now s c dir = Some s' \<and>
                 strokes s' = strokes s @
                   [\<lparr>input = c, expected = expectedChar s, correct = (Some c = expectedChar s),
                     timestamp = now - startTime s, flickDirection = dir\<rparr>] \<and>
                 currentIndex s' = currentIndex s + 1)) \<and>
         (c = dakutenKey \<or> c = handakutenKey \<longrightarrow> handleFlickInput rng now s c dir = Some s)"
proof (intro conjI impI)
  assume c: "c \<noteq> dakutenKey \<and> c \<noteq> handakutenKey"
  let ?t = "s\<lparr>strokes := strokes s @
                [\<lparr>input = c, expected = expectedChar s, correct = (Some c = expectedChar s),
                  timestamp = now - startTime s, flickDirection = dir\<rparr>],
              pendingBaseChar := None, pendingDakutenType := None,
              currentIndex := currentIndex s + 1\<rparr>"
  have h: "handleFlickInput rng now s c dir = renderTrack rng ?t"
    using assms(1,2,4) c by (simp add: handleFlickInput_def Let_def)
  have "picksCharacters rng (generator ?t)" using assms(5) by simp
  from renderTrack_returns [OF this] obtain chars g where
    "renderTrack rng ?t = Some (?t\<lparr>characters := chars, generator := g\<rparr>)" by blast
  with h show "\<exists>s'. handleFlickInput rng now s c dir = Some s' \<and>
                 strokes s' = strokes s @
                   [\<lparr>input = c, expected = expectedChar s, correct = (Some c = expectedChar s),
                     timestamp = now - startTime s, flickDirection = dir\<rparr>] \<and>
                 currentIndex s' = currentIndex s + 1"
    by simp
next
  assume c: "c = dakutenKey \<or> c = handakutenKey"
  show "handleFlickInput rng now s c dir = Some s"
  proof (cases "pendingBaseChar s")
    case None
    with assms(1,2) c show ?thesis by (simp add: handleFlickInput_def)
  next
    case (Some base)
    with assms(3) have "base = []" by simp
    with Some assms(1,2) c show ?thesis by (simp add: handleFlickInput_def)
  qed
qed


text \<open>The character a entered on the text a a a ..., and the semi-voicing mark ignored.\<close>

theorem idle_input_witness:
  "expectedNeeds (session [0x3042]) = None \<and>
   (\<exists>s'. handleFlickInput firstItemRandom 1000 (session [0x3042]) [0x3042] Center = Some s' \<and>
         strokes s' = [\<lparr>input = [0x3042], expected = Some [0x3042], correct = True,
                         timestamp = 1000, flickDirection = Center\<rparr>] \<and>
         currentIndex s' = 1) \<and>
   handleFlickInput firstItemRandom 1000 (session [0x3042]) handakutenKey Left
     = Some (session [0x3042])"
proof -
  have p: "picksCharacters firstItemRandom (generator (session [0x3042]))"
    by (simp add: picks_session)
  have h: "\<not> isCountdown (session [0x3042])" "isRunning (session [0x3042])"
    "\<not> truthy (pendingBaseChar (session [0x3042]))"
    by (simp_all add: session_simps)
  from idle_input [OF h needs_a p, of "[0x3042]" 1000 Center]
    idle_input [OF h needs_a p, of handakutenKey 1000 Left]
  show ?thesis
    by (simp add: keys_distinct needs_a expectedChar_session session_simps)
qed


subsection \<open>Input while a composition is pending\<close>

text \<open>
  The text ga ga ga ... with the base ka entered and the voicing mark awaited: the
  character sa, which is not on the diacritic key, is committed as a miss, the cursor
  moves to 1 and the pending composition is dropped.
\<close>

theorem pending_other_input_counterexample:
  "truthy (pendingBaseChar (awaiting [0x304C] [0x304B] Dakuten)) \<and>
   [0x3055] \<noteq> dakutenKey \<and> [0x3055] \<noteq> handakutenKey \<and>
   strokes (awaiting [0x304C] [0x304B] Dakuten) = [] \<and>
   currentIndex (awaiting [0x304C] [0x304B] Dakuten) = 0 \<and>
   handleFlickInput firstItemRandom 1000 (awaiting [0x304C] [0x304B] Dakuten) [0x3055] Center =
     Some ((awaiting [0x304C] [0x304B] Dakuten)
            \<lparr>strokes := [\<lparr>input = [0x3055], expected = Some [0x304C], correct = False,
                           timestamp = 1000, flickDirection = Center\<rparr>],
             pendingBaseChar := None, pendingDakutenType := None, pendingDakutenCount := 0,
             currentIndex := 1\<rparr>)"
proof -
  let ?s = "awaiting [0x304C] [0x304B] Dakuten"
  let ?t = "?s\<lparr>strokes := strokes ?s @ [\<lparr>input = [0x3055], expected = expectedChar ?s, correct = False,
                           timestamp = 1000 - startTime ?s, flickDirection = Center\<rparr>],
             pendingBaseChar := None, pendingDakutenType := None, pendingDakutenCount := 0,
             currentIndex := currentIndex ?s + 1\<rparr>"
  have "handleFlickInput firstItemRandom 1000 ?s [0x3055] Center = renderTrack firstItemRandom ?t"
    by (simp add: handleFlickInput_def awaiting_simps keys_distinct expected_awaiting needs_ga base_ga)
  moreover have "renderTrack firstItemRandom ?t = Some ?t"
    by (rule renderTrack_filled) (simp add: awaiting_def session_simps maps_configFor)
  ultimately show ?thesis
    by (simp add: awaiting_simps expectedChar_awaiting keys_distinct)
qed


text \<open>
  C2, amended. In a running session with a composition pending, on an expected character
  that needs a diacritic, an input other than the two characters of the diacritic key is
  handled as in the idle state: the base character of the expected character arms the
  composition again (that base, the kind the expected character needs, press counter 0)
  with no stroke and no move of the cursor; any other character is committed as a miss,
  moves the cursor by one and clears the pending composition.
\<close>

theorem pending_other_input:
  assumes "\<not> isCountdown s" and "isRunning s"
    and "truthy (pendingBaseChar s)"
    and "c \<noteq> dakutenKey" and "c \<noteq> handakutenKey"
    and "expectedNeeds s = Some kind"
    and "picksCharacters rng (generator s)"
  shows "(Some c = expectedBase s \<longrightarrow>
           handleFlickInput rng now s c dir =
             Some (s\<lparr>pendingBaseChar := Some c, pendingDakutenType := Some kind,
                     pendingDakutenCount := 0\<rparr>)) \<and>
         (Some c \<noteq> expectedBase s \<longrightarrow>
           (\<exists>s'. handleFlickInput rng now s c dir = Some s' \<and>
                 strokes s' = strokes s @
                   [\<lparr>input = c, expected = expectedChar s, correct = False,
                     timestamp = now - startTime s, flickDirection = dir\<rparr>] \<and>
                 currentIndex s' = currentIndex s + 1 \<and>
                 pendingBaseChar s' = None \<and> pendingDakutenType s' = None \<and>
                 pendingDakutenCount s' = 0))"
proof (intro conjI impI)
  assume "Some c = expectedBase s"
  with assms show "handleFlickInput rng now s c dir =
             Some (s\<lparr>pendingBaseChar := Some c, pendingDakutenType := Some kind,
                     pendingDakutenCount := 0\<rparr>)"
    by (simp add: handleFlickInput_def Let_def)
next
  assume n: "Some c \<noteq> expectedBase s"
  let ?t = "s\<lparr>strokes := strokes s @
                [\<lparr>input = c, expected = expectedChar s, correct = False,
                  timestamp = now - startTime s, flickDirection = dir\<rparr>],
              pendingBaseChar := None, pendingDakutenType := None,
              pendingDakutenCount := 0,
              currentIndex := currentIndex s + 1\<rparr>"
  have h: "handleFlickInput rng now s c dir = renderTrack rng ?t"
    using assms n by (simp add: handleFlickInput_def Let_def)
  have "picksCharacters rng (generator ?t)" using assms(7) by simp
  from renderTrack_returns [OF this] obtain chars g where
    "renderTrack rng ?t = Some (?t\<lparr>characters := chars, generator := g\<rparr>)" by blast
  with h show "\<exists>s'. handleFlickInput rng now s c dir = Some s' \<and>
                 strokes s' = strokes s @
                   [\<lparr>input = c, expected = expectedChar s, correct = False,
                     timestamp = now - startTime s, flickDirection = dir\<rparr>] \<and>
                 currentIndex s' = currentIndex s + 1 \<and>
                 pendingBaseChar s' = None \<and> pendingDakutenType s' = None \<and>
                 pendingDakutenCount s' = 0"
    by simp
qed


text \<open>On the text ga ga ga ... with ka pending: sa is a miss, ka changes nothing.\<close>

theorem pending_other_input_witness:
  "expectedNeeds (awaiting [0x304C] [0x304B] Dakuten) = Some Dakuten \<and>
   (\<exists>s'. handleFlickInput firstItemRandom 1000 (awaiting [0x304C] [0x304B] Dakuten) [0x3055] Center
           = Some s' \<and>
         strokes s' = [\<lparr>input = [0x3055], expected = Some [0x304C], correct = False,
                         timestamp = 1000, flickDirection = Center\<rparr>] \<and>
         currentIndex s' = 1 \<and> pendingBaseChar s' = None) \<and>
   handleFlickInput firstItemRandom 1000 (awaiting [0x304C] [0x304B] Dakuten) [0x304B] Center
     = Some (awaiting [0x304C] [0x304B] Dakuten)"
proof -
  let ?s = "awaiting [0x304C] [0x304B] Dakuten"
  have p: "picksCharacters firstItemRandom (generator ?s)"
    by (simp add: awaiting_simps picks_session)
  have h: "\<not> isCountdown ?s" "isRunning ?s" "truthy (pendingBaseChar ?s)"
    by (simp_all add: awaiting_simps)
  have n: "expectedNeeds ?s = Some Dakuten" by (simp add: expected_awaiting needs_ga)
  have same: "?s\<lparr>pendingBaseChar := Some [0x304B], pendingDakutenType := Some Dakuten,
                  pendingDakutenCount := 0\<rparr> = ?s"
    by (simp add: awaiting_def)
  from pending_other_input [OF h keys_distinct(5,6) n p, of 1000 Center]
    pending_other_input [OF h keys_distinct(7,8) n p, of 1000 Center]
  show ?thesis
    by (auto simp: expected_awaiting needs_ga base_ga expectedChar_awaiting awaiting_simps same)
qed


subsection \<open>Semi-voiced composition\<close>

text \<open>
  C5. Expected pa (U+3071), pending base ha (U+306F) of kind handakuten, press counter 0,
  and a semi-voiced map that takes ha to pa. The first voicing mark only sets the press
  counter to 1: no stroke, the cursor and the pending base and kind stay. The second one
  commits exactly one stroke, with input pa and correct, moves the cursor by one and
  leaves no composition pending.
\<close>

theorem handakuten_two_presses:
  assumes "\<not> isCountdown s" and "isRunning s"
    and "expectedChar s = Some [0x3071]"
    and "pendingBaseChar s = Some [0x306F]"
    and "pendingDakutenType s = Some Handakuten"
    and "pendingDakutenCount s = 0"
    and "lookupMap (handakutenMap (config s)) [0x306F] = Some [0x3071]"
    and "picksCharacters rng (generator s)"
  shows "handleFlickInput rng t1 s dakutenKey d1 = Some (s\<lparr>pendingDakutenCount := 1\<rparr>) \<and>
         (\<exists>s'. handleFlickInput rng t2 (s\<lparr>pendingDakutenCount := 1\<rparr>) dakutenKey d2 = Some s' \<and>
               strokes s' = strokes s @
                 [\<lparr>input = [0x3071], expected = Some [0x3071], correct = True,
                   timestamp = t2 - startTime s, flickDirection = d2\<rparr>] \<and>
               currentIndex s' = currentIndex s + 1 \<and>
               pendingBaseChar s' = None \<and> pendingDakutenType s' = None \<and>
               pendingDakutenCount s' = 0)"
proof
  show "handleFlickInput rng t1 s dakutenKey d1 = Some (s\<lparr>pendingDakutenCount := 1\<rparr>)"
    using assms(1-6) by (simp add: handleFlickInput_def Let_def)
next
  let ?s1 = "s\<lparr>pendingDakutenCount := 1\<rparr>"
  let ?t = "s\<lparr>pendingDakutenCount := 2,
              strokes := strokes s @
                [\<lparr>input = [0x3071], expected = Some [0x3071], correct = True,
                  timestamp = t2 - startTime s, flickDirection = d2\<rparr>],
              pendingBaseChar := None, pendingDakutenType := None,
              pendingDakutenCount := 0,
              currentIndex := currentIndex s + 1\<rparr>"
  have k: "handakutenKey \<noteq> dakutenKey" by (simp add: handakutenKey_def dakutenKey_def)
  have e: "expectedChar ?s1 = Some [0x3071]" using assms(3) by (simp add: expectedChar_def)
  have h: "handleFlickInput rng t2 ?s1 dakutenKey d2 = renderTrack rng ?t"
    using assms(1,2,4,5,7) k e by (simp add: handleFlickInput_def Let_def)
  have "picksCharacters rng (generator ?t)" using assms(8) by simp
  from renderTrack_returns [OF this] obtain chars g where
    "renderTrack rng ?t = Some (?t\<lparr>characters := chars, generator := g\<rparr>)" by blast
  with h show "\<exists>s'. handleFlickInput rng t2 ?s1 dakutenKey d2 = Some s' \<and>
               strokes s' = strokes s @
                 [\<lparr>input = [0x3071], expected = Some [0x3071], correct = True,
                   timestamp = t2 - startTime s, flickDirection = d2\<rparr>] \<and>
               currentIndex s' = currentIndex s + 1 \<and>
               pendingBaseChar s' = None \<and> pendingDakutenType s' = None \<and>
               pendingDakutenCount s' = 0"
    by simp
qed


text \<open>The text pa pa pa ... with ha pending, and the voicing mark pressed twice.\<close>

theorem handakuten_two_presses_witness:
  "expectedChar (awaiting [0x3071] [0x306F] Handakuten) = Some [0x3071] \<and>
   handleFlickInput firstItemRandom 1000 (awaiting [0x3071] [0x306F] Handakuten) dakutenKey Center
     = Some ((awaiting [0x3071] [0x306F] Handakuten)\<lparr>pendingDakutenCount := 1\<rparr>) \<and>
   (\<exists>s'. handleFlickInput firstItemRandom 1200
            ((awaiting [0x3071] [0x306F] Handakuten)\<lparr>pendingDakutenCount := 1\<rparr>) dakutenKey Center
           = Some s' \<and>
         strokes s' = [\<lparr>input = [0x3071], expected = Some [0x3071], correct = True,
                         timestamp = 1200, flickDirection = Center\<rparr>] \<and>
         currentIndex s' = 1 \<and> pendingBaseChar s' = None \<and> pendingDakutenType s' = None \<and>
         pendingDakutenCount s' = 0)"
proof -
  let ?s = "awaiting [0x3071] [0x306F] Handakuten"
  have p: "picksCharacters firstItemRandom (generator ?s)"
    by (simp add: awaiting_simps picks_session)
  have h: "\<not> isCountdown ?s" "isRunning ?s" "expectedChar ?s = Some [0x3071]"
    "pendingBaseChar ?s = Some [0x306F]" "pendingDakutenType ?s = Some Handakuten"
    "pendingDakutenCount ?s = 0" "lookupMap (handakutenMap (config ?s)) [0x306F] = Some [0x3071]"
    by (simp_all add: awaiting_simps expectedChar_awaiting handakuten_lookup)
  from handakuten_two_presses [OF h p, of 1000 Center 1200 Center] h(3)
  show ?thesis by (simp add: awaiting_simps)
qed


text \<open>
  C10. While a handakuten composition is pending on a base that the semi-voiced map takes
  to a character, one input of the semi-voicing mark commits one stroke, with the mapped
  character as input and its equality with the expected character as correctness, moves
  the cursor by one and clears the pending composition, whatever the press counter is.
\<close>

theorem handakuten_single_press:
  assumes "\<not> isCountdown s" and "isRunning s"
    and "pendingBaseChar s = Some base" and "base \<noteq> []"
    and "pendingDakutenType s = Some Handakuten"
    and "lookupMap (handakutenMap (config s)) base = Some v" and "v \<noteq> []"
    and "picksCharacters rng (generator s)"
  shows "\<exists>s'. handleFlickInput rng now s handakutenKey dir = Some s' \<and>
              strokes s' = strokes s @
                [\<lparr>input = v, expected = expectedChar s, correct = (Some v = expectedChar s),
                  timestamp = now - startTime s, flickDirection = dir\<rparr>] \<and>
              currentIndex s' = currentIndex s + 1 \<and>
              pendingBaseChar s' = None \<and> pendingDakutenType s' = None \<and>
              pendingDakutenCount s' = 0"
proof -
  let ?t = "s\<lparr>strokes := strokes s @
                [\<lparr>input = v, expected = expectedChar s, correct = (Some v = expectedChar s),
                  timestamp = now - startTime s, flickDirection = dir\<rparr>],
              pendingBaseChar := None, pendingDakutenType := None,
              pendingDakutenCount := 0,
              currentIndex := currentIndex s + 1\<rparr>"
  have k: "handakutenKey \<noteq> dakutenKey" by (simp add: handakutenKey_def dakutenKey_def)
  have h: "handleFlickInput rng now s handakutenKey dir = renderTrack rng ?t"
  proof (cases "expectedChar s = Some v")
    case True
    with assms(1-7) k show ?thesis by (simp add: handleFlickInput_def Let_def)
  next
    case False
    then have "Some v \<noteq> expectedChar s" by auto
    with assms(1-7) k show ?thesis by (simp add: handleFlickInput_def Let_def)
  qed
  have "picksCharacters rng (generator ?t)" using assms(8) by simp
  from renderTrack_returns [OF this] obtain chars g where
    "renderTrack rng ?t = Some (?t\<lparr>characters := chars, generator := g\<rparr>)" by blast
  with h show ?thesis by simp
qed


text \<open>The text pa pa pa ... with ha pending, and the semi-voicing mark entered once.\<close>

theorem handakuten_single_press_witness:
  "pendingDakutenType (awaiting [0x3071] [0x306F] Handakuten) = Some Handakuten \<and>
   (\<exists>s'. handleFlickInput firstItemRandom 1000 (awaiting [0x3071] [0x306F] Handakuten)
            handakutenKey Left = Some s' \<and>
         strokes s' = [\<lparr>input = [0x3071], expected = Some [0x3071], correct = True,
                         timestamp = 1000, flickDirection = Left\<rparr>] \<and>
         currentIndex s' = 1 \<and> pendingBaseChar s' = None \<and> pendingDakutenType s' = None \<and>
         pendingDakutenCount s' = 0)"
proof -
  let ?s = "awaiting [0x3071] [0x306F] Handakuten"
  have p: "picksCharacters firstItemRandom (generator ?s)"
    by (simp add: awaiting_simps picks_session)
  have h: "\<not> isCountdown ?s" "isRunning ?s" "pendingBaseChar ?s = Some [0x306F]" "[0x306F] \<noteq> ([] :: jstring)"
    "pendingDakutenType ?s = Some Handakuten"
    "lookupMap (handakutenMap (config ?s)) [0x306F] = Some [0x3071]" "[0x3071] \<noteq> ([] :: jstring)"
    by (simp_all add: awaiting_simps handakuten_lookup)
  from handakuten_single_press [OF h p, of 1000 Left] h(5)
  show ?thesis by (simp add: awaiting_simps expectedChar_awaiting)
qed


section \<open>The result of a session\<close>

lemma length_filter_replicate:
  "length (filter P (replicate n x)) = (if P x then n else 0)"
  by (induction n) simp_all


text \<open>
  C7. The result of \<open>endGame\<close>: the characters per minute are the count of correct strokes
  divided by the configured duration in minutes, for a duration other than 0; the accuracy
  is the count of correct strokes divided by the count of all strokes, times 100, when
  there is a stroke. With 60 seconds, 50 correct and 5 incorrect strokes that is an
  accuracy of 50/55*100, about 90.9, and 50 characters per minute.
\<close>

theorem endGame_scores:
  "(game_duration (config s) \<noteq> 0 \<longrightarrow>
      cpm (fst (endGame s)) =
        Finite (real (correctCount (fst (endGame s))) / (game_duration (config s) / 60))) \<and>
   (strokes s \<noteq> [] \<longrightarrow>
      accuracy (fst (endGame s)) =
        real (correctCount (fst (endGame s))) / real (length (strokes s)) * 100) \<and>
   correctCount (fst (endGame s)) = length (filter correct (strokes s)) \<and>
   missCount (fst (endGame s)) = length (filter (\<lambda>x. \<not> correct x) (strokes s)) \<and>
   (game_duration (config s) = 60 \<and> correctCount (fst (endGame s)) = 50 \<and>
    missCount (fst (endGame s)) = 5 \<longrightarrow>
      accuracy (fst (endGame s)) = 50 / 55 * 100 \<and> cpm (fst (endGame s)) = Finite 50 \<and>
      \<bar>accuracy (fst (endGame s)) - 90.9\<bar> < 0.01)"
proof -
  have total: "length (strokes s) =
      length (filter correct (strokes s)) + length (filter (\<lambda>x. \<not> correct x) (strokes s))"
    by (simp add: sum_length_filter_compl)
  have c: "correctCount (fst (endGame s)) = length (filter correct (strokes s))"
    and m: "missCount (fst (endGame s)) = length (filter (\<lambda>x. \<not> correct x) (strokes s))"
    and a: "accuracy (fst (endGame s)) =
        (if length (strokes s) > 0
         then real (length (filter correct (strokes s))) / real (length (strokes s)) * 100 else 0)"
    and p: "cpm (fst (endGame s)) =
        js_divide (real (length (filter correct (strokes s)))) (game_duration (config s) / 60)"
    by (simp_all add: endGame_def Let_def)
  have 1: "game_duration (config s) \<noteq> 0 \<longrightarrow>
      cpm (fst (endGame s)) =
        Finite (real (correctCount (fst (endGame s))) / (game_duration (config s) / 60))"
    by (simp add: p c js_divide_def)
  have 2: "strokes s \<noteq> [] \<longrightarrow>
      accuracy (fst (endGame s)) =
        real (correctCount (fst (endGame s))) / real (length (strokes s)) * 100"
    by (simp add: a c)
  have 3: "game_duration (config s) = 60 \<and> correctCount (fst (endGame s)) = 50 \<and>
    missCount (fst (endGame s)) = 5 \<longrightarrow>
      accuracy (fst (endGame s)) = 50 / 55 * 100 \<and> cpm (fst (endGame s)) = Finite 50 \<and>
      \<bar>accuracy (fst (endGame s)) - 90.9\<bar> < 0.01"
  proof
    assume h: "game_duration (config s) = 60 \<and> correctCount (fst (endGame s)) = 50 \<and>
      missCount (fst (endGame s)) = 5"
    then have n: "length (filter correct (strokes s)) = 50" "length (strokes s) = 55"
      using total c m by simp_all
    have acc: "accuracy (fst (endGame s)) = 50 / 55 * 100" by (simp add: a n)
    moreover have "cpm (fst (endGame s)) = Finite 50" using h by (simp add: p n js_divide_def)
    moreover have "\<bar>accuracy (fst (endGame s)) - 90.9\<bar> < 0.01" unfolding acc by simp
    ultimately show "accuracy (fst (endGame s)) = 50 / 55 * 100 \<and> cpm (fst (endGame s)) = Finite 50 \<and>
      \<bar>accuracy (fst (endGame s)) - 90.9\<bar> < 0.01" by blast
  qed
  from 1 2 c m 3 show ?thesis by blast
qed


text \<open>A session of 60 seconds that ends with 50 correct and 5 incorrect strokes.\<close>

theorem endGame_scores_witness:
  "game_duration (config finished) = 60 \<and> correctCount (fst (endGame finished)) = 50 \<and>
   missCount (fst (endGame finished)) = 5 \<and>
   accuracy (fst (endGame finished)) = 50 / 55 * 100 \<and> cpm (fst (endGame finished)) = Finite 50"
proof -
  have d: "game_duration (config finished) = 60"
    by (simp add: finished_def session_def configFor_def getDefaultConfig_def)
  have s: "strokes finished = replicate 50 (sampleStroke True) @ replicate 5 (sampleStroke False)"
    by (simp add: finished_def)
  have c: "correctCount (fst (endGame finished)) = 50" "missCount (fst (endGame finished)) = 5"
    using endGame_scores [of finished]
    by (simp_all add: s length_filter_replicate sampleStroke_def)
  with d endGame_scores [of finished] show ?thesis by simp
qed


end
